theory Spec2Isabelle
  imports Main "HOL-Library.Word" "HOL-Library.Sublist"
begin

section \<open>Formatting and string helpers used by the client\<close>

text \<open>
  Go strings are byte sequences; \<^typ>\<open>string\<close> is a list of 8-bit characters, so
  \<^const>\<open>length\<close> is Go's \<open>len\<close> and \<open>take\<close>/\<open>drop\<close> are Go's slicing.
\<close>

definition nl :: string where
  "nl = [CHR 0x0A]"

definition ldigits :: string where
  "ldigits = ''0123456789''"

fun decimal :: "nat \<Rightarrow> string" where
  "decimal n = (if n < 10 then [ldigits ! n] else decimal (n div 10) @ [ldigits ! (n mod 10)])"

declare decimal.simps [simp del]

definition fmt_d :: "int \<Rightarrow> string" where
  \<comment> \<open>the verb \<open>%d\<close> of \<open>fmt\<close> on a signed integer\<close>
  "fmt_d i = (if i < 0 then CHR ''-'' # decimal (nat (- i)) else decimal (nat i))"

definition HasPrefix :: "string \<Rightarrow> string \<Rightarrow> bool" where
  "HasPrefix s pre = prefix pre s"

definition TrimPrefix :: "string \<Rightarrow> string \<Rightarrow> string" where
  "TrimPrefix s pre = (if prefix pre s then drop (length pre) s else s)"

definition Contains :: "string \<Rightarrow> string \<Rightarrow> bool" where
  "Contains s substr = sublist substr s"


section \<open>Standard base64 (\<open>encoding/base64\<close>, \<open>StdEncoding\<close>)\<close>

definition encodeStd :: string where
  "encodeStd = ''ABCDEFGHIJKLMNOPQRSTUVWXYZabcdefghijklmnopqrstuvwxyz0123456789+/''"

definition enc6 :: "nat \<Rightarrow> char" where
  "enc6 v = encodeStd ! (v mod 64)"

fun EncodeToString :: "string \<Rightarrow> string" where
  "EncodeToString (a # b # c # rest) =
     (let val = of_char a * 65536 + of_char b * 256 + (of_char c :: nat)
      in enc6 (val div 262144) # enc6 (val div 4096) # enc6 (val div 64) # enc6 val
           # EncodeToString rest)"
| "EncodeToString [a, b] =
     (let val = of_char a * 65536 + of_char b * (256 :: nat)
      in [enc6 (val div 262144), enc6 (val div 4096), enc6 (val div 64), CHR ''=''])"
| "EncodeToString [a] =
     (let val = of_char a * (65536 :: nat)
      in [enc6 (val div 262144), enc6 (val div 4096), CHR ''='', CHR ''=''])"
| "EncodeToString [] = []"

definition dec6 :: "char \<Rightarrow> nat option" where
  "dec6 c = map_of (zip encodeStd [0..<64]) c"

fun decodeQuanta :: "string \<Rightarrow> string option" where
  "decodeQuanta [] = Some []"
| "decodeQuanta (c0 # c1 # c2 # c3 # rest) =
     (case (dec6 c0, dec6 c1) of
        (Some i0, Some i1) \<Rightarrow>
          (case dec6 c2 of
             Some i2 \<Rightarrow>
               (case dec6 c3 of
                  Some i3 \<Rightarrow>
                    (let val = i0 * 262144 + i1 * 4096 + i2 * 64 + i3
                     in map_option
                          (\<lambda>out. char_of (val div 65536) # char_of (val div 256) # char_of val # out)
                          (decodeQuanta rest))
                | None \<Rightarrow>
                    if c3 = CHR ''='' \<and> rest = []
                    then (let val = i0 * 262144 + i1 * 4096 + i2 * 64
                          in Some [char_of (val div 65536), char_of (val div 256)])
                    else None)
           | None \<Rightarrow>
               if c2 = CHR ''='' \<and> c3 = CHR ''='' \<and> rest = []
               then (let val = i0 * 262144 + i1 * 4096 in Some [char_of (val div 65536)])
               else None)
      | _ \<Rightarrow> None)"
| "decodeQuanta _ = None"

definition DecodeString :: "string \<Rightarrow> string option" where
  \<comment> \<open>line feeds and carriage returns are skipped; \<open>None\<close> is \<open>CorruptInputError\<close>\<close>
  "DecodeString s = decodeQuanta (filter (\<lambda>c. c \<noteq> CHR 0x0A \<and> c \<noteq> CHR 0x0D) s)"


section \<open>The client and its construction (\<open>client.go\<close>)\<close>

definition BaseURL :: string where
  "BaseURL = ''https://gas.api.infura.io''"

definition DefaultTimeout :: int where
  \<comment> \<open>\<open>30 * time.Second\<close>, a \<open>time.Duration\<close> in nanoseconds\<close>
  "DefaultTimeout = 30 * 1000000000"

text \<open>
  \<open>http.Client\<close> values are reached through pointers and \<open>WithTimeout\<close> writes through the
  pointer, so they live in a heap. An address is an index into the heap; \<open>None\<close> is the nil
  pointer. \<open>Transport\<close> identifies the round tripper (0 is nil, the default transport).
\<close>

record http_Client =
  Transport :: nat
  Timeout :: int

type_synonym heap = "http_Client list"

datatype panic = NilPointerDereference | InvalidAddress

definition alloc :: "heap \<Rightarrow> http_Client \<Rightarrow> nat \<times> heap" where
  "alloc h v = (length h, h @ [v])"

definition deref :: "heap \<Rightarrow> nat option \<Rightarrow> panic + http_Client" where
  \<comment> \<open>an address outside the heap cannot arise in Go; the case only keeps the model total\<close>
  "deref h p =
     (case p of
        None \<Rightarrow> Inl NilPointerDereference
      | Some a \<Rightarrow> if a < length h then Inr (h ! a) else Inl InvalidAddress)"

record Client =
  apiKey :: string
  apiKeySecret :: string
  baseURL :: string
  httpClient :: "nat option"
  debug :: bool

definition NewClient :: "string \<Rightarrow> string \<Rightarrow> heap \<Rightarrow> Client \<times> heap" where
  "NewClient k s h =
     (let (p, h') = alloc h \<lparr>Transport = 0, Timeout = DefaultTimeout\<rparr>
      in (\<lparr>apiKey = k, apiKeySecret = s, baseURL = BaseURL, httpClient = Some p, debug = False\<rparr>, h'))"

definition NewClientWithAPIKey :: "string \<Rightarrow> heap \<Rightarrow> Client \<times> heap" where
  "NewClientWithAPIKey k h =
     (let (p, h') = alloc h \<lparr>Transport = 0, Timeout = DefaultTimeout\<rparr>
      in (\<lparr>apiKey = k, apiKeySecret = [], baseURL = BaseURL, httpClient = Some p, debug = False\<rparr>, h'))"

text \<open>
  A \<open>ClientOption\<close> is a function value of type \<open>func(*Client)\<close>. The package makes one in
  four ways, one for each thing that can be configured; the nil function value is a
  \<open>ClientOption\<close> as well, and calling it panics. These are the options of the model.
\<close>

datatype ClientOption =
    WithBaseURL string
  | WithHTTPClient "nat option"
  | WithTimeout int
  | WithDebug bool
  | NilOption

fun apply_option :: "ClientOption \<Rightarrow> Client \<times> heap \<Rightarrow> panic + Client \<times> heap" where
  "apply_option (WithBaseURL u) (c, h) = Inr (c\<lparr>baseURL := u\<rparr>, h)"
| "apply_option (WithHTTPClient p) (c, h) = Inr (c\<lparr>httpClient := p\<rparr>, h)"
| "apply_option (WithTimeout t) (c, h) =
     (case httpClient c of
        None \<Rightarrow> Inl NilPointerDereference
      | Some a \<Rightarrow>
          if a < length h then Inr (c, h[a := (h ! a)\<lparr>Timeout := t\<rparr>]) else Inl InvalidAddress)"
| "apply_option (WithDebug d) (c, h) = Inr (c\<lparr>debug := d\<rparr>, h)"
| "apply_option NilOption (c, h) = Inl NilPointerDereference"

fun apply_options :: "ClientOption list \<Rightarrow> Client \<times> heap \<Rightarrow> panic + Client \<times> heap" where
  \<comment> \<open>\<open>for _, opt := range opts { opt(client) }\<close>\<close>
  "apply_options [] s = Inr s"
| "apply_options (opt # opts) s =
     (case apply_option opt s of Inl p \<Rightarrow> Inl p | Inr s' \<Rightarrow> apply_options opts s')"

definition NewClientWithOptions ::
  "string \<Rightarrow> string \<Rightarrow> ClientOption list \<Rightarrow> heap \<Rightarrow> panic + Client \<times> heap" where
  "NewClientWithOptions k s opts h =
     (let (p, h') = alloc h \<lparr>Transport = 0, Timeout = DefaultTimeout\<rparr>;
          client = \<lparr>apiKey = k, apiKeySecret = s, baseURL = BaseURL, httpClient = Some p, debug = False\<rparr>
      in apply_options opts (client, h'))"

definition NewClientWithAPIKeyAndOptions ::
  "string \<Rightarrow> ClientOption list \<Rightarrow> heap \<Rightarrow> panic + Client \<times> heap" where
  "NewClientWithAPIKeyAndOptions k opts h =
     (let (p, h') = alloc h \<lparr>Transport = 0, Timeout = DefaultTimeout\<rparr>;
          client = \<lparr>apiKey = k, apiKeySecret = [], baseURL = BaseURL, httpClient = Some p, debug = False\<rparr>
      in apply_options opts (client, h'))"

definition hasSecret :: "Client \<Rightarrow> bool" where
  "hasSecret c \<longleftrightarrow> apiKeySecret c \<noteq> []"

definition getAuthHeader :: "Client \<Rightarrow> string" where
  "getAuthHeader c =
     (let auth = apiKey c @ '':'' @ apiKeySecret c
      in ''Basic '' @ EncodeToString auth)"

definition maskAuthHeader :: "string \<Rightarrow> string" where
  "maskAuthHeader auth =
     (if length auth > 20 then take 10 auth @ ''...'' @ drop (length auth - 7) auth
      else ''***'')"

text \<open>Observations of a constructor's result, used to state what the options did.\<close>

definition client_Timeout :: "heap \<Rightarrow> Client \<Rightarrow> int option" where
  \<comment> \<open>\<open>client.httpClient.Timeout\<close>\<close>
  "client_Timeout h c = (case deref h (httpClient c) of Inl _ \<Rightarrow> None | Inr hc \<Rightarrow> Some (Timeout hc))"

definition resultTimeout :: "panic + Client \<times> heap \<Rightarrow> int option" where
  "resultTimeout r = (case r of Inl _ \<Rightarrow> None | Inr (c, h) \<Rightarrow> client_Timeout h c)"

text \<open>
  The reading of the specification's "last option wins for a given field": the value of the
  last option of each kind in the list, if there is one.
\<close>

definition last_opt :: "'a list \<Rightarrow> 'a option" where
  "last_opt xs = (if xs = [] then None else Some (last xs))"

definition lastWithBaseURL :: "ClientOption list \<Rightarrow> string option" where
  "lastWithBaseURL opts = last_opt (concat (map (\<lambda>opt. case opt of WithBaseURL u \<Rightarrow> [u] | _ \<Rightarrow> []) opts))"

definition lastWithHTTPClient :: "ClientOption list \<Rightarrow> nat option option" where
  "lastWithHTTPClient opts =
     last_opt (concat (map (\<lambda>opt. case opt of WithHTTPClient p \<Rightarrow> [p] | _ \<Rightarrow> []) opts))"

definition lastWithTimeout :: "ClientOption list \<Rightarrow> int option" where
  "lastWithTimeout opts = last_opt (concat (map (\<lambda>opt. case opt of WithTimeout t \<Rightarrow> [t] | _ \<Rightarrow> []) opts))"

definition lastWithDebug :: "ClientOption list \<Rightarrow> bool option" where
  "lastWithDebug opts = last_opt (concat (map (\<lambda>opt. case opt of WithDebug d \<Rightarrow> [d] | _ \<Rightarrow> []) opts))"

definition specTimeout :: "ClientOption list \<Rightarrow> int" where
  \<comment> \<open>the timeout the specification promises: the last timeout option, or 30 seconds\<close>
  "specTimeout opts = (case lastWithTimeout opts of None \<Rightarrow> DefaultTimeout | Some t \<Rightarrow> t)"

fun isWithHTTPClient :: "ClientOption \<Rightarrow> bool" where
  "isWithHTTPClient (WithHTTPClient p) = True"
| "isWithHTTPClient _ = False"

fun isWithTimeout :: "ClientOption \<Rightarrow> bool" where
  "isWithTimeout (WithTimeout t) = True"
| "isWithTimeout _ = False"

definition afterLastHTTPClient :: "ClientOption list \<Rightarrow> ClientOption list" where
  \<comment> \<open>the options that follow the last \<open>WithHTTPClient\<close> (all of them when there is none)\<close>
  "afterLastHTTPClient opts = rev (takeWhile (\<lambda>opt. \<not> isWithHTTPClient opt) (rev opts))"

text \<open>
  Which transport handle each \<open>WithTimeout\<close> of a list writes to, and what: the handle is the
  one the client holds when the option is reached, starting from \<open>cur\<close>.
\<close>

fun timeoutWrites :: "nat option \<Rightarrow> ClientOption list \<Rightarrow> (nat \<times> int) list" where
  "timeoutWrites cur [] = []"
| "timeoutWrites cur (WithHTTPClient p # opts) = timeoutWrites p opts"
| "timeoutWrites (Some a) (WithTimeout t # opts) = (a, t) # timeoutWrites (Some a) opts"
| "timeoutWrites cur (opt # opts) = timeoutWrites cur opts"

definition lastWriteTo :: "nat \<Rightarrow> (nat \<times> int) list \<Rightarrow> int option" where
  "lastWriteTo a ws = last_opt (map snd (filter (\<lambda>w. fst w = a) ws))"



section \<open>JSON syntax (\<open>encoding/json\<close>)\<close>

text \<open>
  \<open>json.Unmarshal\<close> first checks the whole input against the JSON grammar and only then
  decodes it into the target. The grammar check is the byte-by-byte state machine of
  \<open>encoding/json\<close>'s scanner; here it also assembles the value it has read. String literals and
  numbers are kept as their source text (for a string, the bytes between the quotes).
\<close>

datatype json =
    JNull
  | JBool bool
  | JNumber string
  | JString string
  | JArray "json list"
  | JObject "(string \<times> json) list"

datatype frame =
    ArrValue "json list"
  | ObjKey "(string \<times> json) list"
  | ObjColon "(string \<times> json) list" string
  | ObjValue "(string \<times> json) list" string
  | ObjComma "(string \<times> json) list"

datatype scan_state =
    BeginValue
  | BeginValueOrEmpty
  | BeginStringOrEmpty
  | BeginString
  | EndValue
  | EndTop json
  | InString string
  | InStringEsc string
  | InStringEscU string nat
  | Neg string
  | Zero string
  | Digits string
  | Dot string
  | Dot0 string
  | Exp string
  | ExpSign string
  | Exp0 string
  | Literal string json

type_synonym scanner = "scan_state \<times> frame list"

definition maxNestingDepth :: nat where
  "maxNestingDepth = 10000"

definition isSpace :: "char \<Rightarrow> bool" where
  "isSpace c \<longleftrightarrow> c = CHR '' '' \<or> c = CHR 0x09 \<or> c = CHR 0x0D \<or> c = CHR 0x0A"

definition isDigit :: "char \<Rightarrow> bool" where
  "isDigit c \<longleftrightarrow> c \<in> set ''0123456789''"

definition isDigit19 :: "char \<Rightarrow> bool" where
  "isDigit19 c \<longleftrightarrow> c \<in> set ''123456789''"

definition isHex :: "char \<Rightarrow> bool" where
  "isHex c \<longleftrightarrow> c \<in> set ''0123456789abcdefABCDEF''"

fun deliver :: "json \<Rightarrow> frame list \<Rightarrow> scanner option" where
  "deliver v [] = Some (EndTop v, [])"
| "deliver v (ArrValue els # st) = Some (EndValue, ArrValue (els @ [v]) # st)"
| "deliver (JString k) (ObjKey ms # st) = Some (EndValue, ObjColon ms k # st)"
| "deliver v (ObjValue ms k # st) = Some (EndValue, ObjComma (ms @ [(k, v)]) # st)"
| "deliver v _ = None"

definition pushParseState :: "frame \<Rightarrow> scan_state \<Rightarrow> frame list \<Rightarrow> scanner option" where
  "pushParseState f successState st =
     (if length (f # st) \<le> maxNestingDepth then Some (successState, f # st) else None)"

definition stateBeginValue :: "char \<Rightarrow> frame list \<Rightarrow> scanner option" where
  "stateBeginValue c st =
     (if isSpace c then Some (BeginValue, st)
      else if c = CHR ''{'' then pushParseState (ObjKey []) BeginStringOrEmpty st
      else if c = CHR ''['' then pushParseState (ArrValue []) BeginValueOrEmpty st
      else if c = CHR 0x22 then Some (InString [], st)
      else if c = CHR ''-'' then Some (Neg [c], st)
      else if c = CHR ''0'' then Some (Zero [c], st)
      else if c = CHR ''t'' then Some (Literal ''rue'' (JBool True), st)
      else if c = CHR ''f'' then Some (Literal ''alse'' (JBool False), st)
      else if c = CHR ''n'' then Some (Literal ''ull'' JNull, st)
      else if isDigit19 c then Some (Digits [c], st)
      else None)"

definition stateBeginString :: "char \<Rightarrow> frame list \<Rightarrow> scanner option" where
  "stateBeginString c st =
     (if isSpace c then Some (BeginString, st)
      else if c = CHR 0x22 then Some (InString [], st)
      else None)"

fun stateEndValue :: "char \<Rightarrow> frame list \<Rightarrow> scanner option" where
  "stateEndValue c [] = None"
| "stateEndValue c (ObjColon ms k # st) =
     (if isSpace c then Some (EndValue, ObjColon ms k # st)
      else if c = CHR '':'' then Some (BeginValue, ObjValue ms k # st)
      else None)"
| "stateEndValue c (ObjComma ms # st) =
     (if isSpace c then Some (EndValue, ObjComma ms # st)
      else if c = CHR '','' then Some (BeginString, ObjKey ms # st)
      else if c = CHR ''}'' then deliver (JObject ms) st
      else None)"
| "stateEndValue c (ArrValue els # st) =
     (if isSpace c then Some (EndValue, ArrValue els # st)
      else if c = CHR '','' then Some (BeginValue, ArrValue els # st)
      else if c = CHR '']'' then deliver (JArray els) st
      else None)"
| "stateEndValue c _ = None"

definition endNumber :: "string \<Rightarrow> char \<Rightarrow> frame list \<Rightarrow> scanner option" where
  "endNumber lit c st =
     (case deliver (JNumber lit) st of
        None \<Rightarrow> None
      | Some (EndTop v, st') \<Rightarrow> (if isSpace c then Some (EndTop v, st') else None)
      | Some (s, st') \<Rightarrow> stateEndValue c st')"

definition state0 :: "string \<Rightarrow> char \<Rightarrow> frame list \<Rightarrow> scanner option" where
  "state0 lit c st =
     (if c = CHR ''.'' then Some (Dot (lit @ [c]), st)
      else if c = CHR ''e'' \<or> c = CHR ''E'' then Some (Exp (lit @ [c]), st)
      else endNumber lit c st)"

definition stateESign :: "string \<Rightarrow> char \<Rightarrow> frame list \<Rightarrow> scanner option" where
  "stateESign lit c st = (if isDigit c then Some (Exp0 (lit @ [c]), st) else None)"

fun step :: "scanner \<Rightarrow> char \<Rightarrow> scanner option" where
  "step (BeginValue, st) c = stateBeginValue c st"
| "step (BeginValueOrEmpty, st) c =
     (if isSpace c then Some (BeginValueOrEmpty, st)
      else if c = CHR '']'' then stateEndValue c st
      else stateBeginValue c st)"
| "step (BeginStringOrEmpty, st) c =
     (if isSpace c then Some (BeginStringOrEmpty, st)
      else if c = CHR ''}''
      then (case st of ObjKey ms # st' \<Rightarrow> stateEndValue c (ObjComma ms # st') | _ \<Rightarrow> None)
      else stateBeginString c st)"
| "step (BeginString, st) c = stateBeginString c st"
| "step (EndValue, st) c = stateEndValue c st"
| "step (EndTop v, st) c = (if isSpace c then Some (EndTop v, st) else None)"
| "step (InString lit, st) c =
     (if c = CHR 0x22 then deliver (JString lit) st
      else if c = CHR 0x5C then Some (InStringEsc (lit @ [c]), st)
      else if of_char c < (0x20 :: nat) then None
      else Some (InString (lit @ [c]), st))"
| "step (InStringEsc lit, st) c =
     (if c \<in> set [CHR ''b'', CHR ''f'', CHR ''n'', CHR ''r'', CHR ''t'', CHR 0x5C, CHR ''/'', CHR 0x22]
      then Some (InString (lit @ [c]), st)
      else if c = CHR ''u'' then Some (InStringEscU (lit @ [c]) 4, st)
      else None)"
| "step (InStringEscU lit n, st) c =
     (if isHex c
      then (if n \<le> 1 then Some (InString (lit @ [c]), st) else Some (InStringEscU (lit @ [c]) (n - 1), st))
      else None)"
| "step (Neg lit, st) c =
     (if c = CHR ''0'' then Some (Zero (lit @ [c]), st)
      else if isDigit19 c then Some (Digits (lit @ [c]), st)
      else None)"
| "step (Digits lit, st) c =
     (if isDigit c then Some (Digits (lit @ [c]), st)
      else state0 lit c st)"
| "step (Zero lit, st) c = state0 lit c st"
| "step (Dot lit, st) c = (if isDigit c then Some (Dot0 (lit @ [c]), st) else None)"
| "step (Dot0 lit, st) c =
     (if isDigit c then Some (Dot0 (lit @ [c]), st)
      else if c = CHR ''e'' \<or> c = CHR ''E'' then Some (Exp (lit @ [c]), st)
      else endNumber lit c st)"
| "step (Exp lit, st) c =
     (if c = CHR ''+'' \<or> c = CHR ''-'' then Some (ExpSign (lit @ [c]), st)
      else stateESign lit c st)"
| "step (ExpSign lit, st) c = stateESign lit c st"
| "step (Exp0 lit, st) c =
     (if isDigit c then Some (Exp0 (lit @ [c]), st) else endNumber lit c st)"
| "step (Literal rest v, st) c =
     (case rest of
        [] \<Rightarrow> None
      | x # xs \<Rightarrow> if c \<noteq> x then None else if xs = [] then deliver v st else Some (Literal xs v, st))"

fun scan :: "scanner \<Rightarrow> string \<Rightarrow> scanner option" where
  "scan s [] = Some s"
| "scan s (c # cs) = (case step s c of None \<Rightarrow> None | Some s' \<Rightarrow> scan s' cs)"

definition parse_json :: "string \<Rightarrow> json option" where
  "parse_json data =
     (case scan (BeginValue, []) data of
        None \<Rightarrow> None
      | Some s \<Rightarrow>
          (case step s (CHR '' '') of
             Some (EndTop v, _) \<Rightarrow> Some v
           | _ \<Rightarrow> None))"

text \<open>
  The compact JSON text of an array of strings that need no escaping, such as the bodies the
  \<open>baseFeeHistory\<close> endpoint returns.
\<close>

definition plainChar :: "char \<Rightarrow> bool" where
  "plainChar c \<longleftrightarrow> c \<noteq> CHR 0x22 \<and> c \<noteq> CHR 0x5C \<and> \<not> of_char c < (0x20 :: nat)"

definition quoted :: "string \<Rightarrow> string" where
  "quoted s = CHR 0x22 # s @ [CHR 0x22]"

fun renderStrings :: "string list \<Rightarrow> string" where
  "renderStrings [] = []"
| "renderStrings [x] = quoted x"
| "renderStrings (x # y # ys) = quoted x @ '','' @ renderStrings (y # ys)"

definition renderStringArray :: "string list \<Rightarrow> string" where
  "renderStringArray xs = ''['' @ renderStrings xs @ '']''"

datatype json_error = SyntaxError | UnmarshalTypeError

text \<open>
  The \<open>result interface{}\<close> argument of \<open>doJSONRequest\<close> points to a fresh zero value; what
  \<open>encoding/json\<close> does with it depends on its type. A target carries that behaviour:
  how a well-formed JSON value is stored into a zero value of the type, and how a value of the
  type is printed by \<open>json.MarshalIndent\<close>.
\<close>

record 'a target =
  decode :: "json \<Rightarrow> json_error + 'a"
  MarshalIndent :: "'a \<Rightarrow> string"

definition Unmarshal :: "'a target \<Rightarrow> string \<Rightarrow> json_error + 'a" where
  "Unmarshal tgt data =
     (case parse_json data of
        None \<Rightarrow> Inl SyntaxError
      | Some j \<Rightarrow> decode tgt j)"


section \<open>Response types (\<open>response.go\<close>)\<close>

text \<open>\<open>int64\<close> fields are 64-bit words; the \<open>float64\<close> field is its 64-bit pattern.\<close>

record GasFeeLevel =
  SuggestedMaxPriorityFeePerGas :: string
  SuggestedMaxFeePerGas :: string
  MinWaitTimeEstimate :: "64 word"
  MaxWaitTimeEstimate :: "64 word"

record SuggestedGasFees =
  Low :: GasFeeLevel
  Medium :: GasFeeLevel
  High :: GasFeeLevel
  EstimatedBaseFee :: string
  NetworkCongestion :: "64 word"
  LatestPriorityFeeRange :: "string list"
  HistoricalPriorityFeeRange :: "string list"
  HistoricalBaseFeeRange :: "string list"
  PriorityFeeTrend :: string
  BaseFeeTrend :: string

type_synonym BaseFeeHistory = "string list"

record BaseFeePercentile =
  baseFeePercentile :: string

record BusyThreshold =
  busyThreshold :: string

definition zero_GasFeeLevel :: GasFeeLevel where
  "zero_GasFeeLevel =
     \<lparr>SuggestedMaxPriorityFeePerGas = [], SuggestedMaxFeePerGas = [],
      MinWaitTimeEstimate = 0, MaxWaitTimeEstimate = 0\<rparr>"

definition zero_SuggestedGasFees :: SuggestedGasFees where
  "zero_SuggestedGasFees =
     \<lparr>Low = zero_GasFeeLevel, Medium = zero_GasFeeLevel, High = zero_GasFeeLevel,
      EstimatedBaseFee = [], NetworkCongestion = 0, LatestPriorityFeeRange = [],
      HistoricalPriorityFeeRange = [], HistoricalBaseFeeRange = [],
      PriorityFeeTrend = [], BaseFeeTrend = []\<rparr>"

definition zero_BaseFeePercentile :: BaseFeePercentile where
  "zero_BaseFeePercentile = \<lparr>baseFeePercentile = []\<rparr>"

definition zero_BusyThreshold :: BusyThreshold where
  "zero_BusyThreshold = \<lparr>busyThreshold = []\<rparr>"

text \<open>
  Decoding into \<open>BaseFeeHistory\<close>, a \<open>[]string\<close>: \<open>null\<close> leaves the slice nil, an array is
  stored element by element (a string is unquoted, \<open>null\<close> leaves the empty string), and
  anything else is a type error. A nil and an empty slice are both the empty list.
\<close>

fun decode_string_elems :: "(string \<Rightarrow> string) \<Rightarrow> json list \<Rightarrow> json_error + string list" where
  "decode_string_elems unq [] = Inr []"
| "decode_string_elems unq (JString lit # els) =
     (case decode_string_elems unq els of Inl e \<Rightarrow> Inl e | Inr out \<Rightarrow> Inr (unq lit # out))"
| "decode_string_elems unq (JNull # els) =
     (case decode_string_elems unq els of Inl e \<Rightarrow> Inl e | Inr out \<Rightarrow> Inr ([] # out))"
| "decode_string_elems unq (_ # els) = Inl UnmarshalTypeError"

fun decode_BaseFeeHistory :: "(string \<Rightarrow> string) \<Rightarrow> json \<Rightarrow> json_error + BaseFeeHistory" where
  "decode_BaseFeeHistory unq JNull = Inr []"
| "decode_BaseFeeHistory unq (JArray els) = decode_string_elems unq els"
| "decode_BaseFeeHistory unq _ = Inl UnmarshalTypeError"


section \<open>HTTP requests, responses and the world outside the package\<close>

type_synonym header = "(string \<times> string list) list"

definition header_Set :: "string \<Rightarrow> string \<Rightarrow> header \<Rightarrow> header" where
  \<comment> \<open>\<open>Header.Set\<close>; every key this package sets is already in canonical form\<close>
  "header_Set key v hdr =
     (if key \<in> fst ` set hdr then map (\<lambda>(k, vs). if k = key then (k, [v]) else (k, vs)) hdr
      else hdr @ [(key, [v])])"

definition header_values :: "header \<Rightarrow> string \<Rightarrow> string list option" where
  "header_values hdr key = map_of hdr key"

record request =
  Method :: string
  URL :: string
  Header :: header
  ReqBody :: "string option"

record response =
  Status :: string
  StatusCode :: int
  Proto :: string
  RespHeader :: header
  Body :: "string + string"

text \<open>
  What the standard library and the network do is a parameter of the model:
  whether \<open>http.NewRequestWithContext\<close> rejects a method and URL (with which error), how the
  parsed URL prints and what its host is, what \<open>httpClient.Do\<close> returns for a request (an error
  text or a response, whose \<open>Body\<close> is what \<open>io.ReadAll\<close> returns for it), what \<open>json.Indent\<close>
  makes of a text, in which order a \<open>range\<close> over a header map yields its entries, how a JSON
  string literal is unquoted, how a decoding error prints, and the targets of the three
  response structs.
\<close>

record env =
  NewRequest_error :: "string \<Rightarrow> string \<Rightarrow> string option"
  URL_String :: "string \<Rightarrow> string"
  URL_Host :: "string \<Rightarrow> string"
  Do :: "http_Client \<Rightarrow> request \<Rightarrow> string + response"
  Indent :: "string \<Rightarrow> string option"
  Header_range :: "header \<Rightarrow> header"
  unquote :: "string \<Rightarrow> string"
  json_error_Error :: "json_error \<Rightarrow> string"
  BaseFeeHistory_MarshalIndent :: "BaseFeeHistory \<Rightarrow> string"
  SuggestedGasFees_target :: "SuggestedGasFees target"
  BaseFeePercentile_target :: "BaseFeePercentile target"
  BusyThreshold_target :: "BusyThreshold target"

definition BaseFeeHistory_target :: "env \<Rightarrow> BaseFeeHistory target" where
  "BaseFeeHistory_target e =
     \<lparr>decode = decode_BaseFeeHistory (unquote e), MarshalIndent = BaseFeeHistory_MarshalIndent e\<rparr>"

text \<open>
  The errors the package returns. Those made with \<open>%w\<close> wrap a cause; the one for a bad
  status carries its formatted message.
\<close>

datatype error =
    MarshalBodyError string
  | CreateRequestError string
  | ExecuteRequestError string
  | ReadBodyError string
  | APIStatusError string
  | DecodeError json_error

datatype 'a outcome = Panic panic | Err error | Ok 'a


section \<open>Diagnostics (\<open>client.go\<close>)\<close>

text \<open>
  Each \<open>log.Printf\<close> call is one entry of the log, in the order of the calls. The header lines
  come in the order the \<open>range\<close> over the header map yields them, which the world decides.
\<close>

definition logRequest :: "env \<Rightarrow> request \<Rightarrow> string option \<Rightarrow> string list" where
  "logRequest e req body =
     [''[DEBUG] ========== HTTP Request =========='' @ nl,
      ''[DEBUG] Method: '' @ Method req @ nl,
      ''[DEBUG] URL: '' @ URL_String e (URL req) @ nl,
      ''[DEBUG] Protocol: '' @ ''HTTP/1.1'' @ nl,
      ''[DEBUG] Host: '' @ URL_Host e (URL req) @ nl,
      ''[DEBUG] Headers:'' @ nl]
     @ concat (map (\<lambda>(key, values).
          map (\<lambda>v. if key = ''Authorization''
                    then ''[DEBUG]   '' @ key @ '': '' @ maskAuthHeader v @ nl
                    else ''[DEBUG]   '' @ key @ '': '' @ v @ nl) values)
          (Header_range e (Header req)))
     @ (case body of
          None \<Rightarrow> []
        | Some bodyBytes \<Rightarrow>
            (let bodyStr = (if length bodyBytes > 0
                            then (case Indent e bodyBytes of Some pretty \<Rightarrow> pretty | None \<Rightarrow> bodyBytes)
                            else [])
             in if bodyStr \<noteq> [] then [''[DEBUG] Request Body:'' @ nl @ bodyStr @ nl] else []))
     @ [''[DEBUG] ===================================='' @ nl]"

definition logResponseHeaders :: "env \<Rightarrow> response \<Rightarrow> string list" where
  "logResponseHeaders e resp =
     [''[DEBUG] ========== HTTP Response Headers =========='' @ nl,
      ''[DEBUG] Status: '' @ Status resp @ nl,
      ''[DEBUG] Status Code: '' @ fmt_d (StatusCode resp) @ nl,
      ''[DEBUG] Protocol: '' @ Proto resp @ nl,
      ''[DEBUG] Headers:'' @ nl]
     @ concat (map (\<lambda>(key, values). map (\<lambda>v. ''[DEBUG]   '' @ key @ '': '' @ v @ nl) values)
                (Header_range e (RespHeader resp)))
     @ [''[DEBUG] ============================================'' @ nl]"

definition logResponseBody :: "env \<Rightarrow> string \<Rightarrow> string list" where
  "logResponseBody e bodyBytes =
     [''[DEBUG] ========== HTTP Response Body =========='' @ nl]
     @ (if length bodyBytes > 0
        then (case Indent e bodyBytes of Some pretty \<Rightarrow> [pretty @ nl] | None \<Rightarrow> [bodyBytes @ nl])
        else [''[DEBUG] (empty body)'' @ nl])
     @ [''[DEBUG] ==========================================='' @ nl]"


section \<open>Performing requests (\<open>client.go\<close>)\<close>

definition prepareRequest :: "Client \<Rightarrow> string \<Rightarrow> string \<Rightarrow> string option \<Rightarrow> request" where
  \<comment> \<open>the request \<open>doRequest\<close> has built once its three \<open>Header.Set\<close> lines have run\<close>
  "prepareRequest c method endpoint body =
     (let url = baseURL c @ endpoint;
          req = \<lparr>Method = method, URL = url, Header = [], ReqBody = body\<rparr>;
          req = (if hasSecret c
                 then req\<lparr>Header := header_Set ''Authorization'' (getAuthHeader c) (Header req)\<rparr>
                 else req);
          req = req\<lparr>Header := header_Set ''Content-Type'' ''application/json'' (Header req)\<rparr>;
          req = req\<lparr>Header := header_Set ''Accept'' ''application/json'' (Header req)\<rparr>
      in req)"

definition doRequest ::
  "env \<Rightarrow> heap \<Rightarrow> Client \<Rightarrow> string \<Rightarrow> string \<Rightarrow> string option \<Rightarrow> response outcome \<times> string list" where
  "doRequest e h c method endpoint body =
     (case NewRequest_error e method (baseURL c @ endpoint) of
        Some err \<Rightarrow> (Err (CreateRequestError err), [])
      | None \<Rightarrow>
          (let req = prepareRequest c method endpoint body;
               log1 = (if debug c then logRequest e req body else [])
           in case deref h (httpClient c) of
                Inl p \<Rightarrow> (Panic p, log1)
              | Inr hc \<Rightarrow>
                  (case Do e hc req of
                     Inl err \<Rightarrow>
                       (Err (ExecuteRequestError err),
                        log1 @ (if debug c then [''[DEBUG] Request failed: '' @ err @ nl] else []))
                   | Inr resp \<Rightarrow>
                       (Ok resp, log1 @ (if debug c then logResponseHeaders e resp else [])))))"

definition statusErrorMessage :: "int \<Rightarrow> string \<Rightarrow> string" where
  \<comment> \<open>the format \<open>"API request failed with status %d: %s"\<close>\<close>
  "statusErrorMessage code body = ''API request failed with status '' @ fmt_d code @ '': '' @ body"

definition doJSONRequest ::
  "env \<Rightarrow> heap \<Rightarrow> Client \<Rightarrow> string \<Rightarrow> string \<Rightarrow> (string + string) option \<Rightarrow> 'a target option
     \<Rightarrow> 'a option outcome \<times> string list" where
  \<comment> \<open>\<open>body\<close>: \<open>None\<close> is nil, \<open>Some (Inl err)\<close> a value \<open>json.Marshal\<close> rejects, \<open>Some (Inr b)\<close>
      a value that marshals to \<open>b\<close>. The result is what has been stored through \<open>result\<close>.\<close>
  "doJSONRequest e h c method endpoint body result =
     (case body of
        Some (Inl err) \<Rightarrow> (Err (MarshalBodyError err), [])
      | _ \<Rightarrow>
        (let bodyReader = (case body of Some (Inr bodyBytes) \<Rightarrow> Some bodyBytes | _ \<Rightarrow> None)
         in case doRequest e h c method endpoint bodyReader of
              (Panic p, log1) \<Rightarrow> (Panic p, log1)
            | (Err err, log1) \<Rightarrow> (Err err, log1)
            | (Ok resp, log1) \<Rightarrow>
                (case Body resp of
                   Inl err \<Rightarrow> (Err (ReadBodyError err), log1)
                 | Inr respBodyBytes \<Rightarrow>
                     (let log2 = log1 @ (if debug c then logResponseBody e respBodyBytes else [])
                      in if StatusCode resp < 200 \<or> StatusCode resp \<ge> 300
                         then (Err (APIStatusError (statusErrorMessage (StatusCode resp) respBodyBytes)),
                               log2)
                         else (case result of
                                 None \<Rightarrow> (Ok None, log2)
                               | Some tgt \<Rightarrow>
                                   (case Unmarshal tgt respBodyBytes of
                                      Inl err \<Rightarrow>
                                        (Err (DecodeError err),
                                         log2 @ (if debug c
                                                 then [''[DEBUG] Failed to unmarshal response: ''
                                                         @ json_error_Error e err @ nl]
                                                 else []))
                                    | Inr v \<Rightarrow>
                                        (Ok (Some v),
                                         log2 @ (if debug c
                                                 then [''[DEBUG] Parsed response object:'' @ nl
                                                         @ MarshalIndent tgt v @ nl]
                                                 else []))))))))"


section \<open>The four endpoints (\<open>gas.go\<close>)\<close>

definition endpointPath :: "Client \<Rightarrow> 64 word \<Rightarrow> string \<Rightarrow> string" where
  \<comment> \<open>the \<open>if c.hasSecret()\<close> block that opens each method, for the endpoint called \<open>name\<close>\<close>
  "endpointPath c chainID name =
     (if hasSecret c
      then ''/networks/'' @ fmt_d (sint chainID) @ ''/'' @ name
      else ''/v3/'' @ apiKey c @ ''/networks/'' @ fmt_d (sint chainID) @ ''/'' @ name)"

definition returned :: "'a \<Rightarrow> 'a option outcome \<times> string list \<Rightarrow> 'a outcome \<times> string list" where
  \<comment> \<open>\<open>var result T; if err := ...; err != nil { return nil, err }; return &result, nil\<close>\<close>
  "returned zero r =
     (case r of
        (Panic p, lg) \<Rightarrow> (Panic p, lg)
      | (Err err, lg) \<Rightarrow> (Err err, lg)
      | (Ok None, lg) \<Rightarrow> (Ok zero, lg)
      | (Ok (Some v), lg) \<Rightarrow> (Ok v, lg))"

definition GetSuggestedGasFees ::
  "env \<Rightarrow> heap \<Rightarrow> Client \<Rightarrow> 64 word \<Rightarrow> SuggestedGasFees outcome \<times> string list" where
  "GetSuggestedGasFees e h c chainID =
     (let endpoint = endpointPath c chainID ''suggestedGasFees''
      in returned zero_SuggestedGasFees
           (doJSONRequest e h c ''GET'' endpoint None (Some (SuggestedGasFees_target e))))"

definition GetBaseFeeHistory ::
  "env \<Rightarrow> heap \<Rightarrow> Client \<Rightarrow> 64 word \<Rightarrow> BaseFeeHistory outcome \<times> string list" where
  "GetBaseFeeHistory e h c chainID =
     (let endpoint = endpointPath c chainID ''baseFeeHistory''
      in returned []
           (doJSONRequest e h c ''GET'' endpoint None (Some (BaseFeeHistory_target e))))"

definition GetBaseFeePercentile ::
  "env \<Rightarrow> heap \<Rightarrow> Client \<Rightarrow> 64 word \<Rightarrow> BaseFeePercentile outcome \<times> string list" where
  "GetBaseFeePercentile e h c chainID =
     (let endpoint = endpointPath c chainID ''baseFeePercentile''
      in returned zero_BaseFeePercentile
           (doJSONRequest e h c ''GET'' endpoint None (Some (BaseFeePercentile_target e))))"

definition GetBusyThreshold ::
  "env \<Rightarrow> heap \<Rightarrow> Client \<Rightarrow> 64 word \<Rightarrow> BusyThreshold outcome \<times> string list" where
  "GetBusyThreshold e h c chainID =
     (let endpoint = endpointPath c chainID ''busyThreshold''
      in returned zero_BusyThreshold
           (doJSONRequest e h c ''GET'' endpoint None (Some (BusyThreshold_target e))))"

definition received :: "env \<Rightarrow> heap \<Rightarrow> Client \<Rightarrow> 64 word \<Rightarrow> string \<Rightarrow> response \<Rightarrow> bool" where
  \<comment> \<open>the exchange the method for endpoint \<open>name\<close> starts ends with the response \<open>resp\<close>\<close>
  "received e h c chainID name resp \<longleftrightarrow>
     fst (doRequest e h c ''GET'' (endpointPath c chainID name) None) = Ok resp"


section \<open>A test server\<close>

text \<open>
  The package's tests run the client against a local server that answers every request with
  one status and one body. \<open>mock_env\<close> is such a world, for the examples: every request is
  accepted and answered the same way. It unquotes a string literal to itself, which is what
  the library does for a literal of printable ASCII without escapes, and its struct targets
  accept an object or \<open>null\<close> and leave the zero value, which is what the library does for
  \<open>null\<close> and for an object with no member the struct has a field for. The examples use it
  on such bodies only.
\<close>

definition mock_target :: "'a \<Rightarrow> 'a target" where
  "mock_target zero =
     \<lparr>decode = (\<lambda>j. case j of JObject ms \<Rightarrow> Inr zero | JNull \<Rightarrow> Inr zero | _ \<Rightarrow> Inl UnmarshalTypeError),
      MarshalIndent = (\<lambda>v. ''{}'')\<rparr>"

definition mock_response :: "int \<Rightarrow> string \<Rightarrow> response" where
  "mock_response status body =
     \<lparr>Status = fmt_d status, StatusCode = status, Proto = ''HTTP/1.1'',
      RespHeader = [(''Content-Type'', [''application/json''])], Body = Inr body\<rparr>"

definition mock_env :: "int \<Rightarrow> string \<Rightarrow> env" where
  "mock_env status body =
     \<lparr>NewRequest_error = (\<lambda>method url. None),
      URL_String = (\<lambda>url. url),
      URL_Host = (\<lambda>url. ''127.0.0.1''),
      Do = (\<lambda>hc req. Inr (mock_response status body)),
      Indent = (\<lambda>text. None),
      Header_range = (\<lambda>hdr. hdr),
      unquote = (\<lambda>lit. lit),
      json_error_Error = (\<lambda>err. ''json error''),
      BaseFeeHistory_MarshalIndent = (\<lambda>v. ''[]''),
      SuggestedGasFees_target = mock_target zero_SuggestedGasFees,
      BaseFeePercentile_target = mock_target zero_BaseFeePercentile,
      BusyThreshold_target = mock_target zero_BusyThreshold\<rparr>"

definition test_client :: "string \<Rightarrow> string \<Rightarrow> Client" where
  \<comment> \<open>the client \<open>NewClient\<close> makes on an empty heap\<close>
  "test_client k s = fst (NewClient k s [])"

definition test_heap :: heap where
  "test_heap = snd (NewClient [] [] [])"

section \<open>Properties\<close>

lemma dec6_enc6: "dec6 (enc6 v) = Some (v mod 64)"
proof -
  have d: "distinct encodeStd" by (simp add: encodeStd_def)
  have l: "length encodeStd = 64" by (simp add: encodeStd_def)
  have "map_of (zip encodeStd [0..<64]) (encodeStd ! (v mod 64)) = Some ([0..<64] ! (v mod 64))"
    by (rule map_of_zip_nth) (simp_all add: d l)
  then show ?thesis by (simp add: dec6_def enc6_def)
qed

lemma enc6_not_special: "enc6 v \<noteq> CHR ''=''" "enc6 v \<noteq> CHR 0x0A" "enc6 v \<noteq> CHR 0x0D"
proof -
  have "enc6 v \<in> set encodeStd" unfolding enc6_def by (rule nth_mem) (simp add: encodeStd_def)
  then show "enc6 v \<noteq> CHR ''=''" "enc6 v \<noteq> CHR 0x0A" "enc6 v \<noteq> CHR 0x0D"
    by (auto simp: encodeStd_def)
qed

lemma split24:
  fixes v :: nat
  shows "v mod 16777216 =
         (v div 262144 mod 64) * 262144 + (v div 4096 mod 64) * 4096 + (v div 64 mod 64) * 64 + v mod 64"
proof -
  define a where "a = v div 64"
  define b where "b = a div 64"
  define c where "c = b div 64"
  have da: "v div 4096 = b" using div_mult2_eq [of v 64 64] by (simp add: a_def b_def)
  have dc: "v div 262144 = c" using div_mult2_eq [of v 4096 64] by (simp add: da c_def)
  have 1: "v mod 16777216 = 64 * (a mod 262144) + v mod 64"
    using mod_mult2_eq [of v 64 262144] by (simp add: a_def)
  have 2: "a mod 262144 = 64 * (b mod 4096) + a mod 64"
    using mod_mult2_eq [of a 64 4096] by (simp add: b_def)
  have 3: "b mod 4096 = 64 * (c mod 64) + b mod 64"
    using mod_mult2_eq [of b 64 64] by (simp add: c_def)
  have "v mod 16777216 = c mod 64 * 262144 + b mod 64 * 4096 + a mod 64 * 64 + v mod 64"
    unfolding 1 2 3 by simp
  then show ?thesis unfolding da dc a_def [symmetric] .
qed

lemma recombine24:
  fixes v :: nat
  shows "(v div 262144 mod 64) * 262144 + (v div 4096 mod 64) * 4096 + (v div 64 mod 64) * 64 + v mod 64
         = v mod 16777216"
  by (rule split24 [symmetric])

lemma recombine_pad1:
  fixes v :: nat
  assumes "v mod 256 = 0"
  shows "(v div 262144 mod 64) * 262144 + (v div 4096 mod 64) * 4096 + (v div 64 mod 64) * 64
         = v mod 16777216"
proof -
  have "v mod 64 = v mod 256 mod 64" by (simp add: mod_mod_cancel)
  then have z: "v mod 64 = 0" using assms by simp
  show ?thesis using split24 [of v] z by simp
qed

lemma recombine_pad2:
  fixes v :: nat
  assumes "v mod 65536 = 0"
  shows "(v div 262144 mod 64) * 262144 + (v div 4096 mod 64) * 4096 = v mod 16777216"
proof -
  have "v mod 4096 = v mod 65536 mod 4096" by (simp add: mod_mod_cancel)
  then have z: "v mod 4096 = 0" using assms by simp
  have "v mod 4096 = 64 * (v div 64 mod 64) + v mod 64"
    using mod_mult2_eq [of v 64 64] by simp
  then have "v div 64 mod 64 = 0" "v mod 64 = 0" using z by simp_all
  then show ?thesis using split24 [of v] by simp
qed

lemma bytes3_nat:
  fixes A B C :: nat
  assumes "A < 256" "B < 256" "C < 256"
  defines "v \<equiv> A * 65536 + B * 256 + C"
  shows "v mod 16777216 = v" "v div 65536 = A" "v div 256 mod 256 = B" "v mod 256 = C"
proof -
  have "v < 16777216" using assms by simp
  then show "v mod 16777216 = v" by simp
  show "v div 65536 = A" using assms by simp
  have "v div 256 = A * 256 + B" using assms by simp
  then show "v div 256 mod 256 = B" using assms by simp
  have "v = C + 256 * (A * 256 + B)" by (simp add: v_def)
  then have "v mod 256 = C mod 256" by (simp only: mod_mult_self2)
  then show "v mod 256 = C" using assms by simp
qed

lemma char_of_mod256: "char_of (n mod 256 :: nat) = char_of n"
  by (rule char_of_mod_256)

lemma bytes3:
  fixes a b c :: char
  defines "v \<equiv> of_char a * 65536 + of_char b * 256 + (of_char c :: nat)"
  shows "v mod 16777216 = v" "char_of (v div 65536) = a" "char_of (v div 256) = b" "char_of v = c"
proof -
  have a: "(of_char a :: nat) < 256" and b: "(of_char b :: nat) < 256" and c: "(of_char c :: nat) < 256"
    by simp_all
  note n = bytes3_nat [OF a b c, folded v_def]
  show "v mod 16777216 = v" by (rule n)
  show "char_of (v div 65536) = a" by (simp only: n char_of_char)
  have "char_of (v div 256 mod 256) = b" by (simp only: n char_of_char)
  then show "char_of (v div 256) = b" by (simp only: char_of_mod256)
  have "char_of (v mod 256) = c" by (simp only: n char_of_char)
  then show "char_of v = c" by (simp only: char_of_mod256)
qed

lemma decode_full_quantum:
  "decodeQuanta (enc6 (v div 262144) # enc6 (v div 4096) # enc6 (v div 64) # enc6 v # rest) =
     map_option (\<lambda>out. char_of (v mod 16777216 div 65536) # char_of (v mod 16777216 div 256)
                       # char_of (v mod 16777216) # out) (decodeQuanta rest)"
  by (simp only: decodeQuanta.simps dec6_enc6 prod.case option.case Let_def recombine24)

lemma dec6_pad: "dec6 (CHR ''='') = None"
  by (simp add: dec6_def encodeStd_def)

lemma decode_pad1_quantum:
  "v mod 256 = 0 \<Longrightarrow>
   decodeQuanta [enc6 (v div 262144), enc6 (v div 4096), enc6 (v div 64), CHR ''=''] =
     Some [char_of (v mod 16777216 div 65536), char_of (v mod 16777216 div 256)]"
  by (simp only: decodeQuanta.simps dec6_enc6 dec6_pad prod.case option.case Let_def
        recombine_pad1 simp_thms if_True)

lemma decode_pad2_quantum:
  "v mod 65536 = 0 \<Longrightarrow>
   decodeQuanta [enc6 (v div 262144), enc6 (v div 4096), CHR ''='', CHR ''=''] =
     Some [char_of (v mod 16777216 div 65536)]"
  by (simp only: decodeQuanta.simps dec6_enc6 dec6_pad prod.case option.case Let_def
        recombine_pad2 simp_thms if_True)

lemma decodeQuanta_EncodeToString: "decodeQuanta (EncodeToString s) = Some s"
proof (induction s rule: EncodeToString.induct)
  case (1 a b c rest)
  show ?case
    unfolding EncodeToString.simps Let_def decode_full_quantum bytes3 [of a b c]
    by (simp add: "1.IH")
next
  case (2 a b)
  define v :: nat where "v = of_char a * 65536 + of_char b * 256"
  have z: "v mod 256 = 0" by (simp add: v_def)
  have "v = of_char a * 65536 + of_char b * 256 + (of_char (CHR 0x00) :: nat)"
    by (simp add: v_def)
  then have b: "v mod 16777216 = v" "char_of (v div 65536) = a" "char_of (v div 256) = b"
    using bytes3 [of a b "CHR 0x00"] by simp_all
  show ?case
    unfolding EncodeToString.simps Let_def v_def [symmetric] decode_pad1_quantum [OF z] b
    by simp
next
  case (3 a)
  define v :: nat where "v = of_char a * 65536"
  have z: "v mod 65536 = 0" by (simp add: v_def)
  have "v = of_char a * 65536 + of_char (CHR 0x00) * 256 + (of_char (CHR 0x00) :: nat)"
    by (simp add: v_def)
  then have b: "v mod 16777216 = v" "char_of (v div 65536) = a"
    using bytes3 [of a "CHR 0x00" "CHR 0x00"] by simp_all
  show ?case
    unfolding EncodeToString.simps Let_def v_def [symmetric] decode_pad2_quantum [OF z] b
    by simp
next
  case 4
  then show ?case by simp
qed

lemma EncodeToString_chars: "set (EncodeToString s) \<subseteq> insert (CHR ''='') (range enc6)"
  by (induction s rule: EncodeToString.induct) (auto simp: Let_def)

lemma DecodeString_EncodeToString: "DecodeString (EncodeToString s) = Some s"
proof -
  have "c \<noteq> CHR 0x0A \<and> c \<noteq> CHR 0x0D" if "c \<in> set (EncodeToString s)" for c
  proof -
    from that have "c = CHR ''='' \<or> (\<exists>v. c = enc6 v)"
      using EncodeToString_chars [of s] by auto
    then show ?thesis using enc6_not_special by auto
  qed
  then have "filter (\<lambda>c. c \<noteq> CHR 0x0A \<and> c \<noteq> CHR 0x0D) (EncodeToString s) = EncodeToString s"
    by (simp add: filter_id_conv)
  then show ?thesis by (simp add: DecodeString_def decodeQuanta_EncodeToString)
qed




text \<open>
  C6: for every credential pair, the value \<open>getAuthHeader\<close> returns is the Basic scheme
  marker followed by text that base64-decodes to exactly the API key, a colon and the secret.
  The statement follows the package's own test: the marker is there, and what is left once
  it is trimmed decodes to the credentials.
\<close>
theorem getAuthHeader_decodes:
  "HasPrefix (getAuthHeader c) ''Basic '' \<and>
   DecodeString (TrimPrefix (getAuthHeader c) ''Basic '') = Some (apiKey c @ '':'' @ apiKeySecret c)"
  by (simp add: getAuthHeader_def HasPrefix_def TrimPrefix_def Let_def DecodeString_EncodeToString)

theorem getAuthHeader_decodes_witness:
  "DecodeString (TrimPrefix ''Basic dGVzdC1hcGkta2V5OnRlc3QtYXBpLXNlY3JldA=='' ''Basic '')
     = Some ''test-api-key:test-api-secret''"
proof -
  have "getAuthHeader \<lparr>apiKey = ''test-api-key'', apiKeySecret = ''test-api-secret'',
          baseURL = BaseURL, httpClient = None, debug = False\<rparr>
        = ''Basic dGVzdC1hcGkta2V5OnRlc3QtYXBpLXNlY3JldA==''"
    by (simp add: getAuthHeader_def Let_def enc6_def encodeStd_def)
  then show ?thesis
    using getAuthHeader_decodes [of "\<lparr>apiKey = ''test-api-key'', apiKeySecret = ''test-api-secret'',
          baseURL = BaseURL, httpClient = None, debug = False\<rparr>"]
    by (simp only: Client.simps append.simps)
qed




lemma test_client_simps:
  "test_client k s = \<lparr>apiKey = k, apiKeySecret = s, baseURL = BaseURL, httpClient = Some 0, debug = False\<rparr>"
  "test_heap = [\<lparr>Transport = 0, Timeout = DefaultTimeout\<rparr>]"
  by (simp_all add: test_client_def test_heap_def NewClient_def alloc_def)

lemmas eval_fmt = fmt_d_def decimal.simps ldigits_def

lemma hasSecret_debug [simp]: "hasSecret (c\<lparr>debug := d\<rparr>) = hasSecret c"
  by (simp add: hasSecret_def)

lemma getAuthHeader_debug [simp]: "getAuthHeader (c\<lparr>debug := d\<rparr>) = getAuthHeader c"
  by (simp add: getAuthHeader_def)

lemma endpointPath_debug [simp]: "endpointPath (c\<lparr>debug := d\<rparr>) n name = endpointPath c n name"
  by (simp add: endpointPath_def)

lemma prepareRequest_debug [simp]:
  "prepareRequest (c\<lparr>debug := d\<rparr>) m p b = prepareRequest c m p b"
  by (simp add: prepareRequest_def Let_def)

lemma Header_prepareRequest:
  "Header (prepareRequest c m p b) =
     (if hasSecret c then [(''Authorization'', [getAuthHeader c])] else [])
     @ [(''Content-Type'', [''application/json'']), (''Accept'', [''application/json''])]"
  by (simp add: prepareRequest_def header_Set_def Let_def)

lemma URL_prepareRequest: "URL (prepareRequest c m p b) = baseURL c @ p"
  by (simp add: prepareRequest_def Let_def)

lemma getAuthHeader_nonempty: "getAuthHeader c \<noteq> []"
  by (simp add: getAuthHeader_def Let_def)

lemma doRequest_sends:
  assumes "NewRequest_error e m (baseURL c @ p) = None"
    and "deref h (httpClient c) = Inr hc"
    and "Do e hc (prepareRequest c m p b) = Inr resp"
  shows "fst (doRequest e h c m p b) = Ok resp"
  using assms by (simp add: doRequest_def Let_def)

lemma fst_returned:
  "fst (returned z r) =
     (case fst r of Panic p \<Rightarrow> Panic p | Err err \<Rightarrow> Err err | Ok None \<Rightarrow> Ok z | Ok (Some v) \<Rightarrow> Ok v)"
  by (cases r) (simp add: returned_def split: outcome.splits option.splits)

lemmas Get_defs =
  GetSuggestedGasFees_def GetBaseFeeHistory_def GetBaseFeePercentile_def GetBusyThreshold_def

lemma fst_doRequest:
  "fst (doRequest e h c m p b) =
     (case NewRequest_error e m (baseURL c @ p) of
        Some err \<Rightarrow> Err (CreateRequestError err)
      | None \<Rightarrow>
          (case deref h (httpClient c) of
             Inl pn \<Rightarrow> Panic pn
           | Inr hc \<Rightarrow>
               (case Do e hc (prepareRequest c m p b) of
                  Inl err \<Rightarrow> Err (ExecuteRequestError err)
                | Inr resp \<Rightarrow> Ok resp)))"
  by (simp add: doRequest_def Let_def split: option.splits sum.splits)

text \<open>
  What a method returns, in terms of the one request it sends: \<open>doJSONRequest\<close> hands its
  method, its path and its nil body to \<open>doRequest\<close>, and the outcome is decided by what the
  transport answers to the request \<open>doRequest\<close> prepared.
\<close>

lemma method_outcome:
  "fst (returned z (doJSONRequest e h c m p None (Some t))) =
     (case NewRequest_error e m (baseURL c @ p) of
        Some err \<Rightarrow> Err (CreateRequestError err)
      | None \<Rightarrow>
          (case deref h (httpClient c) of
             Inl pn \<Rightarrow> Panic pn
           | Inr hc \<Rightarrow>
               (case Do e hc (prepareRequest c m p None) of
                  Inl err \<Rightarrow> Err (ExecuteRequestError err)
                | Inr resp \<Rightarrow>
                    (case Body resp of
                       Inl err \<Rightarrow> Err (ReadBodyError err)
                     | Inr body \<Rightarrow>
                         if StatusCode resp < 200 \<or> 300 \<le> StatusCode resp
                         then Err (APIStatusError (statusErrorMessage (StatusCode resp) body))
                         else (case Unmarshal t body of
                                 Inl err \<Rightarrow> Err (DecodeError err)
                               | Inr v \<Rightarrow> Ok v)))))"
proof -
  obtain r lg where d: "doRequest e h c m p None = (r, lg)"
    by (cases "doRequest e h c m p None")
  then have r: "r = fst (doRequest e h c m p None)" by simp
  have "fst (returned z (doJSONRequest e h c m p None (Some t))) =
      (case r of
         Panic pn \<Rightarrow> Panic pn
       | Err err \<Rightarrow> Err err
       | Ok resp \<Rightarrow>
           (case Body resp of
              Inl err \<Rightarrow> Err (ReadBodyError err)
            | Inr body \<Rightarrow>
                if StatusCode resp < 200 \<or> 300 \<le> StatusCode resp
                then Err (APIStatusError (statusErrorMessage (StatusCode resp) body))
                else (case Unmarshal t body of
                        Inl err \<Rightarrow> Err (DecodeError err)
                      | Inr v \<Rightarrow> Ok v)))"
    using d
    by (simp add: fst_returned doJSONRequest_def Let_def split: outcome.splits sum.splits)
  then show ?thesis
    unfolding r fst_doRequest
    by (simp split: option.splits sum.splits)
qed

text \<open>
  C1: for every client and chain identifier, the path an endpoint method builds and the
  Authorization header of the request go together. With a non-empty secret the path is
  \<open>/networks/{n}/{name}\<close> and the request carries one non-empty Authorization value; with an
  empty secret the path is \<open>/v3/{apiKey}/networks/{n}/{name}\<close> and the request has no
  Authorization header. The request goes to the base address followed by that path, and it is
  the request each method sends: what a method returns is decided by what the transport
  answers to exactly this \<open>GET\<close> request with no body (an error when the request cannot be
  made or the exchange fails, otherwise what the status and the body of the answer give).
\<close>
theorem endpoint_request_by_auth_mode:
  "(apiKeySecret c \<noteq> [] \<longrightarrow>
      endpointPath c n name = ''/networks/'' @ fmt_d (sint n) @ ''/'' @ name \<and>
      (\<exists>v. v \<noteq> [] \<and>
         header_values (Header (prepareRequest c ''GET'' (endpointPath c n name) None)) ''Authorization''
           = Some [v])) \<and>
   (apiKeySecret c = [] \<longrightarrow>
      endpointPath c n name = ''/v3/'' @ apiKey c @ ''/networks/'' @ fmt_d (sint n) @ ''/'' @ name \<and>
      header_values (Header (prepareRequest c ''GET'' (endpointPath c n name) None)) ''Authorization''
        = None) \<and>
   URL (prepareRequest c ''GET'' (endpointPath c n name) None) = baseURL c @ endpointPath c n name \<and>
   (NewRequest_error e ''GET'' (baseURL c @ endpointPath c n name) = None \<and>
    deref h (httpClient c) = Inr hc \<and>
    Do e hc (prepareRequest c ''GET'' (endpointPath c n name) None) = Inr resp
      \<longrightarrow> fst (doRequest e h c ''GET'' (endpointPath c n name) None) = Ok resp) \<and>
   GetSuggestedGasFees e h c n =
     returned zero_SuggestedGasFees
       (doJSONRequest e h c ''GET'' (endpointPath c n ''suggestedGasFees'') None
          (Some (SuggestedGasFees_target e))) \<and>
   GetBaseFeeHistory e h c n =
     returned []
       (doJSONRequest e h c ''GET'' (endpointPath c n ''baseFeeHistory'') None
          (Some (BaseFeeHistory_target e))) \<and>
   GetBaseFeePercentile e h c n =
     returned zero_BaseFeePercentile
       (doJSONRequest e h c ''GET'' (endpointPath c n ''baseFeePercentile'') None
          (Some (BaseFeePercentile_target e))) \<and>
   GetBusyThreshold e h c n =
     returned zero_BusyThreshold
       (doJSONRequest e h c ''GET'' (endpointPath c n ''busyThreshold'') None
          (Some (BusyThreshold_target e))) \<and>
   fst (GetSuggestedGasFees e h c n) =
     (case NewRequest_error e ''GET'' (baseURL c @ endpointPath c n ''suggestedGasFees'') of
        Some err \<Rightarrow> Err (CreateRequestError err)
      | None \<Rightarrow>
          (case deref h (httpClient c) of
             Inl pn \<Rightarrow> Panic pn
           | Inr hc \<Rightarrow>
               (case Do e hc (prepareRequest c ''GET'' (endpointPath c n ''suggestedGasFees'') None) of
                  Inl err \<Rightarrow> Err (ExecuteRequestError err)
                | Inr r \<Rightarrow>
                    (case Body r of
                       Inl err \<Rightarrow> Err (ReadBodyError err)
                     | Inr body \<Rightarrow>
                         if StatusCode r < 200 \<or> 300 \<le> StatusCode r
                         then Err (APIStatusError (statusErrorMessage (StatusCode r) body))
                         else (case Unmarshal (SuggestedGasFees_target e) body of
                                 Inl err \<Rightarrow> Err (DecodeError err)
                               | Inr v \<Rightarrow> Ok v))))) \<and>
   fst (GetBaseFeeHistory e h c n) =
     (case NewRequest_error e ''GET'' (baseURL c @ endpointPath c n ''baseFeeHistory'') of
        Some err \<Rightarrow> Err (CreateRequestError err)
      | None \<Rightarrow>
          (case deref h (httpClient c) of
             Inl pn \<Rightarrow> Panic pn
           | Inr hc \<Rightarrow>
               (case Do e hc (prepareRequest c ''GET'' (endpointPath c n ''baseFeeHistory'') None) of
                  Inl err \<Rightarrow> Err (ExecuteRequestError err)
                | Inr r \<Rightarrow>
                    (case Body r of
                       Inl err \<Rightarrow> Err (ReadBodyError err)
                     | Inr body \<Rightarrow>
                         if StatusCode r < 200 \<or> 300 \<le> StatusCode r
                         then Err (APIStatusError (statusErrorMessage (StatusCode r) body))
                         else (case Unmarshal (BaseFeeHistory_target e) body of
                                 Inl err \<Rightarrow> Err (DecodeError err)
                               | Inr v \<Rightarrow> Ok v))))) \<and>
   fst (GetBaseFeePercentile e h c n) =
     (case NewRequest_error e ''GET'' (baseURL c @ endpointPath c n ''baseFeePercentile'') of
        Some err \<Rightarrow> Err (CreateRequestError err)
      | None \<Rightarrow>
          (case deref h (httpClient c) of
             Inl pn \<Rightarrow> Panic pn
           | Inr hc \<Rightarrow>
               (case Do e hc (prepareRequest c ''GET'' (endpointPath c n ''baseFeePercentile'') None) of
                  Inl err \<Rightarrow> Err (ExecuteRequestError err)
                | Inr r \<Rightarrow>
                    (case Body r of
                       Inl err \<Rightarrow> Err (ReadBodyError err)
                     | Inr body \<Rightarrow>
                         if StatusCode r < 200 \<or> 300 \<le> StatusCode r
                         then Err (APIStatusError (statusErrorMessage (StatusCode r) body))
                         else (case Unmarshal (BaseFeePercentile_target e) body of
                                 Inl err \<Rightarrow> Err (DecodeError err)
                               | Inr v \<Rightarrow> Ok v))))) \<and>
   fst (GetBusyThreshold e h c n) =
     (case NewRequest_error e ''GET'' (baseURL c @ endpointPath c n ''busyThreshold'') of
        Some err \<Rightarrow> Err (CreateRequestError err)
      | None \<Rightarrow>
          (case deref h (httpClient c) of
             Inl pn \<Rightarrow> Panic pn
           | Inr hc \<Rightarrow>
               (case Do e hc (prepareRequest c ''GET'' (endpointPath c n ''busyThreshold'') None) of
                  Inl err \<Rightarrow> Err (ExecuteRequestError err)
                | Inr r \<Rightarrow>
                    (case Body r of
                       Inl err \<Rightarrow> Err (ReadBodyError err)
                     | Inr body \<Rightarrow>
                         if StatusCode r < 200 \<or> 300 \<le> StatusCode r
                         then Err (APIStatusError (statusErrorMessage (StatusCode r) body))
                         else (case Unmarshal (BusyThreshold_target e) body of
                                 Inl err \<Rightarrow> Err (DecodeError err)
                               | Inr v \<Rightarrow> Ok v)))))"
proof (intro conjI impI)
  assume s: "apiKeySecret c \<noteq> []"
  then show "endpointPath c n name = ''/networks/'' @ fmt_d (sint n) @ ''/'' @ name"
    by (simp add: endpointPath_def hasSecret_def)
  from s show "\<exists>v. v \<noteq> [] \<and>
      header_values (Header (prepareRequest c ''GET'' (endpointPath c n name) None)) ''Authorization''
        = Some [v]"
    using getAuthHeader_nonempty [of c]
    by (simp add: Header_prepareRequest header_values_def hasSecret_def)
next
  assume s: "apiKeySecret c = []"
  then show "endpointPath c n name = ''/v3/'' @ apiKey c @ ''/networks/'' @ fmt_d (sint n) @ ''/'' @ name"
    by (simp add: endpointPath_def hasSecret_def)
  from s show "header_values (Header (prepareRequest c ''GET'' (endpointPath c n name) None))
      ''Authorization'' = None"
    by (simp add: Header_prepareRequest header_values_def hasSecret_def)
next
  show "URL (prepareRequest c ''GET'' (endpointPath c n name) None) = baseURL c @ endpointPath c n name"
    by (rule URL_prepareRequest)
next
  assume "NewRequest_error e ''GET'' (baseURL c @ endpointPath c n name) = None \<and>
    deref h (httpClient c) = Inr hc \<and>
    Do e hc (prepareRequest c ''GET'' (endpointPath c n name) None) = Inr resp"
  then show "fst (doRequest e h c ''GET'' (endpointPath c n name) None) = Ok resp"
    by (simp add: doRequest_sends)
qed (simp_all only: Get_defs Let_def method_outcome)

lemma mock_response_simps:
  "Body (mock_response status body) = Inr body"
  "StatusCode (mock_response status body) = status"
  by (simp_all add: mock_response_def)

lemma parse_json_empty_object: "parse_json ''{}'' = Some (JObject [])"
  by (simp add: parse_json_def stateBeginValue_def isSpace_def pushParseState_def
        maxNestingDepth_def)

theorem endpoint_request_by_auth_mode_witness:
  "endpointPath (test_client ''test-api-key'' ''test-api-secret'') 1 ''suggestedGasFees''
     = ''/networks/1/suggestedGasFees'' \<and>
   endpointPath (test_client ''test-api-key'' []) 1 ''suggestedGasFees''
     = ''/v3/test-api-key/networks/1/suggestedGasFees'' \<and>
   header_values (Header (prepareRequest (test_client ''test-api-key'' []) ''GET''
       (endpointPath (test_client ''test-api-key'' []) 1 ''suggestedGasFees'') None)) ''Authorization''
     = None \<and>
   fst (doRequest (mock_env 200 ''{}'') test_heap (test_client ''test-api-key'' []) ''GET''
       (endpointPath (test_client ''test-api-key'' []) 1 ''suggestedGasFees'') None)
     = Ok (mock_response 200 ''{}'') \<and>
   fst (GetBusyThreshold (mock_env 200 ''{}'') test_heap (test_client ''test-api-key'' []) 1)
     = Ok zero_BusyThreshold \<and>
   fst (GetBaseFeeHistory (mock_env 200 ''{}'') test_heap (test_client ''test-api-key'' []) 1)
     = Err (DecodeError UnmarshalTypeError) \<and>
   fst (GetBusyThreshold ((mock_env 200 ''{}'')\<lparr>Do := (\<lambda>hc req. Inl ''connection refused'')\<rparr>)
          test_heap (test_client ''test-api-key'' []) 1)
     = Err (ExecuteRequestError ''connection refused'')"
proof -
  have a: "apiKeySecret (test_client ''test-api-key'' ''test-api-secret'') \<noteq> []"
    and b: "apiKeySecret (test_client ''test-api-key'' []) = []"
    and k: "apiKey (test_client ''test-api-key'' []) = ''test-api-key''"
    by (simp_all add: test_client_simps)
  have f: "fmt_d (sint (1 :: 64 word)) = ''1''" by (simp add: eval_fmt)
  have d: "NewRequest_error (mock_env 200 ''{}'') ''GET''
        (baseURL (test_client ''test-api-key'' [])
           @ endpointPath (test_client ''test-api-key'' []) 1 ''suggestedGasFees'') = None \<and>
      deref test_heap (httpClient (test_client ''test-api-key'' []))
        = Inr \<lparr>Transport = 0, Timeout = DefaultTimeout\<rparr> \<and>
      Do (mock_env 200 ''{}'') \<lparr>Transport = 0, Timeout = DefaultTimeout\<rparr>
        (prepareRequest (test_client ''test-api-key'' []) ''GET''
           (endpointPath (test_client ''test-api-key'' []) 1 ''suggestedGasFees'') None)
        = Inr (mock_response 200 ''{}'')"
    by (simp add: mock_env_def test_client_simps deref_def)
  have m: "NewRequest_error (mock_env 200 ''{}'') = (\<lambda>method url. None)"
    "Do (mock_env 200 ''{}'') = (\<lambda>hc req. Inr (mock_response 200 ''{}''))"
    "BusyThreshold_target (mock_env 200 ''{}'') = mock_target zero_BusyThreshold"
    by (simp_all add: mock_env_def)
  have dr: "deref test_heap (httpClient (test_client ''test-api-key'' []))
      = Inr \<lparr>Transport = 0, Timeout = DefaultTimeout\<rparr>"
    by (simp add: test_client_simps deref_def)
  have u: "Unmarshal (mock_target zero_BusyThreshold) ''{}'' = Inr zero_BusyThreshold"
    "Unmarshal (BaseFeeHistory_target (mock_env 200 ''{}'')) ''{}'' = Inl UnmarshalTypeError"
    by (simp_all add: Unmarshal_def parse_json_empty_object mock_target_def BaseFeeHistory_target_def)
  note t1 = endpoint_request_by_auth_mode
              [of "test_client ''test-api-key'' ''test-api-secret''" 1 "''suggestedGasFees''"]
  note t2 = endpoint_request_by_auth_mode
              [of "test_client ''test-api-key'' []" 1 "''suggestedGasFees''"
                  "mock_env 200 ''{}''" test_heap "\<lparr>Transport = 0, Timeout = DefaultTimeout\<rparr>"
                  "mock_response 200 ''{}''"]
  from t1 a have p1: "endpointPath (test_client ''test-api-key'' ''test-api-secret'') 1 ''suggestedGasFees''
      = ''/networks/'' @ fmt_d (sint (1 :: 64 word)) @ ''/'' @ ''suggestedGasFees''"
    by blast
  from t2 b have p2: "endpointPath (test_client ''test-api-key'' []) 1 ''suggestedGasFees''
      = ''/v3/'' @ apiKey (test_client ''test-api-key'' []) @ ''/networks/''
          @ fmt_d (sint (1 :: 64 word)) @ ''/'' @ ''suggestedGasFees''"
    and p3: "header_values (Header (prepareRequest (test_client ''test-api-key'' []) ''GET''
          (endpointPath (test_client ''test-api-key'' []) 1 ''suggestedGasFees'') None))
          ''Authorization'' = None"
    by blast+
  from t2 d have p4: "fst (doRequest (mock_env 200 ''{}'') test_heap (test_client ''test-api-key'' [])
      ''GET'' (endpointPath (test_client ''test-api-key'' []) 1 ''suggestedGasFees'') None)
        = Ok (mock_response 200 ''{}'')"
    by blast
  have "endpointPath (test_client ''test-api-key'' ''test-api-secret'') 1 ''suggestedGasFees''
      = ''/networks/1/suggestedGasFees''"
    unfolding p1 f by simp
  moreover have "endpointPath (test_client ''test-api-key'' []) 1 ''suggestedGasFees''
      = ''/v3/test-api-key/networks/1/suggestedGasFees''"
    unfolding p2 f k by simp
  moreover note p3 p4
  moreover have "fst (GetBusyThreshold (mock_env 200 ''{}'') test_heap
        (test_client ''test-api-key'' []) 1) = Ok zero_BusyThreshold"
    unfolding t2 [THEN conjunct2, THEN conjunct2, THEN conjunct2, THEN conjunct2, THEN conjunct2, THEN conjunct2, THEN conjunct2, THEN conjunct2, THEN conjunct2, THEN conjunct2, THEN conjunct2] by (simp add: m dr u mock_response_simps)
  moreover have "fst (GetBaseFeeHistory (mock_env 200 ''{}'') test_heap
        (test_client ''test-api-key'' []) 1) = Err (DecodeError UnmarshalTypeError)"
    unfolding t2 [THEN conjunct2, THEN conjunct2, THEN conjunct2, THEN conjunct2, THEN conjunct2, THEN conjunct2, THEN conjunct2, THEN conjunct2, THEN conjunct2, THEN conjunct1] by (simp add: m dr u mock_response_simps)
  moreover have "fst (GetBusyThreshold
        ((mock_env 200 ''{}'')\<lparr>Do := (\<lambda>hc req. Inl ''connection refused'')\<rparr>)
        test_heap (test_client ''test-api-key'' []) 1)
      = Err (ExecuteRequestError ''connection refused'')"
    unfolding endpoint_request_by_auth_mode
                [of "test_client ''test-api-key'' []" 1 "''suggestedGasFees''"
                    "(mock_env 200 ''{}'')\<lparr>Do := (\<lambda>hc req. Inl ''connection refused'')\<rparr>"
                    test_heap "\<lparr>Transport = 0, Timeout = DefaultTimeout\<rparr>"
                    "mock_response 200 ''{}''", THEN conjunct2, THEN conjunct2, THEN conjunct2, THEN conjunct2, THEN conjunct2, THEN conjunct2, THEN conjunct2, THEN conjunct2, THEN conjunct2, THEN conjunct2, THEN conjunct2]
    by (simp add: mock_env_def dr)
  ultimately show ?thesis by blast
qed

lemma doJSONRequest_response:
  assumes "fst (doRequest e h c m p None) = Ok resp" and "Body resp = Inr body"
  shows "fst (doJSONRequest e h c m p None tgt) =
     (if StatusCode resp < 200 \<or> 300 \<le> StatusCode resp
      then Err (APIStatusError (statusErrorMessage (StatusCode resp) body))
      else (case tgt of
              None \<Rightarrow> Ok None
            | Some t \<Rightarrow> (case Unmarshal t body of
                          Inl err \<Rightarrow> Err (DecodeError err)
                        | Inr v \<Rightarrow> Ok (Some v))))"
proof -
  obtain lg where "doRequest e h c m p None = (Ok resp, lg)"
    using assms(1) by (cases "doRequest e h c m p None") simp
  then show ?thesis
    using assms(2)
    by (simp add: doJSONRequest_def Let_def split: option.splits sum.splits)
qed

lemma endpoint_result:
  assumes "received e h c n name resp" and "Body resp = Inr body"
  shows "fst (returned z (doJSONRequest e h c ''GET'' (endpointPath c n name) None (Some t))) =
     (if StatusCode resp < 200 \<or> 300 \<le> StatusCode resp
      then Err (APIStatusError (statusErrorMessage (StatusCode resp) body))
      else (case Unmarshal t body of Inl err \<Rightarrow> Err (DecodeError err) | Inr v \<Rightarrow> Ok v))"
  using assms
  by (simp add: fst_returned received_def doJSONRequest_response split: sum.splits)

lemma Contains_middle: "Contains (a @ b @ c) b"
  by (auto simp: Contains_def sublist_def)

lemma Contains_end: "Contains (a @ b) b"
  using Contains_middle [of a b "[]"] by simp

lemma status_message:
  "Contains (statusErrorMessage code body) (fmt_d code)"
  "Contains (statusErrorMessage code body) body"
proof -
  show "Contains (statusErrorMessage code body) (fmt_d code)"
    unfolding statusErrorMessage_def by (rule Contains_middle)
  have "Contains ((''API request failed with status '' @ fmt_d code @ '': '') @ body) body"
    by (rule Contains_end)
  then show "Contains (statusErrorMessage code body) body"
    by (simp add: statusErrorMessage_def)
qed

lemma mock_received:
  "received (mock_env status body) test_heap (test_client k s) n name (mock_response status body)"
  by (simp add: received_def doRequest_def mock_env_def test_client_simps deref_def Let_def)

text \<open>
  C2: when the response received has a status code outside [200,300) and its body has been
  read, each of the four endpoint methods returns an error and no result, and the message of
  that error contains the decimal status code and the raw body text.
\<close>
theorem non_2xx_status_is_error:
  assumes "Body resp = Inr body" and "StatusCode resp < 200 \<or> 300 \<le> StatusCode resp"
  shows "(received e h c n ''suggestedGasFees'' resp \<longrightarrow>
           (\<exists>msg. fst (GetSuggestedGasFees e h c n) = Err (APIStatusError msg) \<and>
                  Contains msg (fmt_d (StatusCode resp)) \<and> Contains msg body)) \<and>
         (received e h c n ''baseFeeHistory'' resp \<longrightarrow>
           (\<exists>msg. fst (GetBaseFeeHistory e h c n) = Err (APIStatusError msg) \<and>
                  Contains msg (fmt_d (StatusCode resp)) \<and> Contains msg body)) \<and>
         (received e h c n ''baseFeePercentile'' resp \<longrightarrow>
           (\<exists>msg. fst (GetBaseFeePercentile e h c n) = Err (APIStatusError msg) \<and>
                  Contains msg (fmt_d (StatusCode resp)) \<and> Contains msg body)) \<and>
         (received e h c n ''busyThreshold'' resp \<longrightarrow>
           (\<exists>msg. fst (GetBusyThreshold e h c n) = Err (APIStatusError msg) \<and>
                  Contains msg (fmt_d (StatusCode resp)) \<and> Contains msg body))"
  using assms
  by (simp add: Get_defs Let_def endpoint_result status_message)

theorem non_2xx_status_is_error_witness:
  "(\<exists>msg. fst (GetSuggestedGasFees (mock_env 401 ''{\"error\": \"Unauthorized\"}'') test_heap
              (test_client ''invalid-key'' ''invalid-secret'') 1) = Err (APIStatusError msg) \<and>
          Contains msg ''401'' \<and> Contains msg ''{\"error\": \"Unauthorized\"}'') \<and>
   (\<exists>msg. fst (GetBaseFeeHistory (mock_env 401 ''{\"error\": \"Unauthorized\"}'') test_heap
              (test_client ''invalid-key'' ''invalid-secret'') 1) = Err (APIStatusError msg) \<and>
          Contains msg ''401'' \<and> Contains msg ''{\"error\": \"Unauthorized\"}'') \<and>
   (\<exists>msg. fst (GetBaseFeePercentile (mock_env 401 ''{\"error\": \"Unauthorized\"}'') test_heap
              (test_client ''invalid-key'' ''invalid-secret'') 1) = Err (APIStatusError msg) \<and>
          Contains msg ''401'' \<and> Contains msg ''{\"error\": \"Unauthorized\"}'') \<and>
   (\<exists>msg. fst (GetBusyThreshold (mock_env 401 ''{\"error\": \"Unauthorized\"}'') test_heap
              (test_client ''invalid-key'' ''invalid-secret'') 1) = Err (APIStatusError msg) \<and>
          Contains msg ''401'' \<and> Contains msg ''{\"error\": \"Unauthorized\"}'')"
proof -
  let ?b = "''{\"error\": \"Unauthorized\"}''"
  have f: "fmt_d 401 = ''401''" by (simp add: eval_fmt)
  have s: "StatusCode (mock_response 401 ?b) < 200 \<or> 300 \<le> StatusCode (mock_response 401 ?b)"
    by (simp add: mock_response_simps)
  show ?thesis
    using non_2xx_status_is_error
            [OF mock_response_simps(1) s, of "mock_env 401 ?b" test_heap
               "test_client ''invalid-key'' ''invalid-secret''" 1]
          mock_received [of 401 ?b]
    by (simp only: mock_response_simps f simp_thms)
qed

lemma Unmarshal_syntax_error: "parse_json body = None \<Longrightarrow> Unmarshal t body = Inl SyntaxError"
  by (simp add: Unmarshal_def)

lemma parse_json_empty: "parse_json [] = None"
  by (simp add: parse_json_def stateBeginValue_def isSpace_def isDigit19_def)

lemma parse_json_invalid_json: "parse_json ''invalid json'' = None"
  by (simp add: parse_json_def stateBeginValue_def isSpace_def isDigit19_def)

text \<open>
  C3: when a response with a 2xx status (200 in particular) has a body that
  \<open>json.Unmarshal\<close> rejects for the method's result type, the method returns the decode
  error wrapping that failure, never a result. A body that is not JSON at all, such as
  \<open>invalid json\<close>, is rejected with a syntax error whatever the result type.
\<close>
theorem undecodable_body_is_decode_error:
  assumes "Body resp = Inr body" and "200 \<le> StatusCode resp" and "StatusCode resp < 300"
  shows "(received e h c n ''suggestedGasFees'' resp \<and>
            Unmarshal (SuggestedGasFees_target e) body = Inl err
            \<longrightarrow> fst (GetSuggestedGasFees e h c n) = Err (DecodeError err)) \<and>
         (received e h c n ''baseFeeHistory'' resp \<and>
            Unmarshal (BaseFeeHistory_target e) body = Inl err
            \<longrightarrow> fst (GetBaseFeeHistory e h c n) = Err (DecodeError err)) \<and>
         (received e h c n ''baseFeePercentile'' resp \<and>
            Unmarshal (BaseFeePercentile_target e) body = Inl err
            \<longrightarrow> fst (GetBaseFeePercentile e h c n) = Err (DecodeError err)) \<and>
         (received e h c n ''busyThreshold'' resp \<and>
            Unmarshal (BusyThreshold_target e) body = Inl err
            \<longrightarrow> fst (GetBusyThreshold e h c n) = Err (DecodeError err)) \<and>
         (parse_json body = None \<longrightarrow>
            Unmarshal (SuggestedGasFees_target e) body = Inl SyntaxError \<and>
            Unmarshal (BaseFeeHistory_target e) body = Inl SyntaxError \<and>
            Unmarshal (BaseFeePercentile_target e) body = Inl SyntaxError \<and>
            Unmarshal (BusyThreshold_target e) body = Inl SyntaxError)"
  using assms
  by (auto simp: Get_defs Let_def endpoint_result Unmarshal_syntax_error)

theorem undecodable_body_is_decode_error_witness:
  "fst (GetSuggestedGasFees (mock_env 200 ''invalid json'') test_heap
          (test_client ''test-api-key'' ''test-api-secret'') 1) = Err (DecodeError SyntaxError) \<and>
   fst (GetBaseFeeHistory (mock_env 200 ''invalid json'') test_heap
          (test_client ''test-api-key'' ''test-api-secret'') 1) = Err (DecodeError SyntaxError) \<and>
   fst (GetBaseFeePercentile (mock_env 200 ''invalid json'') test_heap
          (test_client ''test-api-key'' ''test-api-secret'') 1) = Err (DecodeError SyntaxError) \<and>
   fst (GetBusyThreshold (mock_env 200 ''invalid json'') test_heap
          (test_client ''test-api-key'' ''test-api-secret'') 1) = Err (DecodeError SyntaxError)"
proof -
  have s: "200 \<le> StatusCode (mock_response 200 ''invalid json'')"
    "StatusCode (mock_response 200 ''invalid json'') < 300"
    by (simp_all add: mock_response_simps)
  show ?thesis
    using undecodable_body_is_decode_error
            [OF mock_response_simps(1) s, of "mock_env 200 ''invalid json''" test_heap
               "test_client ''test-api-key'' ''test-api-secret''" 1 SyntaxError]
          mock_received [of 200 "''invalid json''"] parse_json_invalid_json
    by (simp only: simp_thms)
qed

text \<open>
  What the decoder accepts is the library's choice: \<open>null\<close> is JSON and is accepted for a
  slice, which stays nil, so such a body gives an empty history and no error.
\<close>

lemma null_body_is_accepted:
  "fst (GetBaseFeeHistory (mock_env 200 ''null'') test_heap (test_client k s) n) = Ok []"
proof -
  have p: "parse_json ''null'' = Some JNull"
    by (simp add: parse_json_def stateBeginValue_def isSpace_def)
  have d: "Unmarshal (BaseFeeHistory_target (mock_env 200 ''null'')) ''null'' = Inr []"
    unfolding Unmarshal_def p by (simp add: BaseFeeHistory_target_def)
  show ?thesis
    unfolding GetBaseFeeHistory_def Let_def
      endpoint_result [OF mock_received mock_response_simps(1)] mock_response_simps(2) d
    by simp
qed

text \<open>
  C10: a 2xx response whose body is empty makes each of the four endpoint methods return a
  decode error: the empty body is handed to the JSON decoder, which rejects empty input.
\<close>
theorem empty_2xx_body_is_decode_error:
  assumes "Body resp = Inr []" and "200 \<le> StatusCode resp" and "StatusCode resp < 300"
  shows "(received e h c n ''suggestedGasFees'' resp
            \<longrightarrow> fst (GetSuggestedGasFees e h c n) = Err (DecodeError SyntaxError)) \<and>
         (received e h c n ''baseFeeHistory'' resp
            \<longrightarrow> fst (GetBaseFeeHistory e h c n) = Err (DecodeError SyntaxError)) \<and>
         (received e h c n ''baseFeePercentile'' resp
            \<longrightarrow> fst (GetBaseFeePercentile e h c n) = Err (DecodeError SyntaxError)) \<and>
         (received e h c n ''busyThreshold'' resp
            \<longrightarrow> fst (GetBusyThreshold e h c n) = Err (DecodeError SyntaxError))"
  using assms
  by (simp add: Get_defs Let_def endpoint_result Unmarshal_syntax_error parse_json_empty)

theorem empty_2xx_body_is_decode_error_witness:
  "fst (GetSuggestedGasFees (mock_env 204 []) test_heap
          (test_client ''test-api-key'' ''test-api-secret'') 1) = Err (DecodeError SyntaxError) \<and>
   fst (GetBaseFeeHistory (mock_env 204 []) test_heap
          (test_client ''test-api-key'' ''test-api-secret'') 1) = Err (DecodeError SyntaxError) \<and>
   fst (GetBaseFeePercentile (mock_env 204 []) test_heap
          (test_client ''test-api-key'' ''test-api-secret'') 1) = Err (DecodeError SyntaxError) \<and>
   fst (GetBusyThreshold (mock_env 204 []) test_heap
          (test_client ''test-api-key'' ''test-api-secret'') 1) = Err (DecodeError SyntaxError)"
proof -
  have s: "200 \<le> StatusCode (mock_response 204 [])" "StatusCode (mock_response 204 []) < 300"
    by (simp_all add: mock_response_simps)
  show ?thesis
    using empty_2xx_body_is_decode_error
            [OF mock_response_simps(1) s, of "mock_env 204 []" test_heap
               "test_client ''test-api-key'' ''test-api-secret''" 1]
          mock_received [of 204 "[]"]
    by (simp only: simp_thms)
qed

lemma scan_append:
  "scan s (xs @ ys) = (case scan s xs of None \<Rightarrow> None | Some s' \<Rightarrow> scan s' ys)"
  by (induction xs arbitrary: s) (simp_all split: option.splits)

lemma scan_plain:
  "list_all plainChar s \<Longrightarrow> scan (InString acc, st) s = Some (InString (acc @ s), st)"
  by (induction s arbitrary: acc) (simp_all add: plainChar_def)

lemma scan_quoted_in_array:
  assumes "list_all plainChar x"
  shows "scan (BeginValue, ArrValue els # st) (quoted x) = Some (EndValue, ArrValue (els @ [JString x]) # st)"
    and "scan (BeginValueOrEmpty, ArrValue els # st) (quoted x)
           = Some (EndValue, ArrValue (els @ [JString x]) # st)"
proof -
  have q: "quoted x = CHR 0x22 # (x @ [CHR 0x22])" by (simp add: quoted_def)
  have body: "scan (InString [], ArrValue els # st) (x @ [CHR 0x22])
      = Some (EndValue, ArrValue (els @ [JString x]) # st)"
    by (simp add: scan_append scan_plain [OF assms])
  show "scan (BeginValue, ArrValue els # st) (quoted x) = Some (EndValue, ArrValue (els @ [JString x]) # st)"
    unfolding q by (simp add: stateBeginValue_def isSpace_def body)
  show "scan (BeginValueOrEmpty, ArrValue els # st) (quoted x)
           = Some (EndValue, ArrValue (els @ [JString x]) # st)"
    unfolding q by (simp add: stateBeginValue_def isSpace_def body)
qed

lemma scan_renderStrings:
  assumes "xs \<noteq> []" and "list_all (list_all plainChar) xs"
  shows "scan (BeginValue, ArrValue els # st) (renderStrings xs)
           = Some (EndValue, ArrValue (els @ map JString xs) # st)"
  using assms
proof (induction xs arbitrary: els rule: renderStrings.induct)
  case 1
  then show ?case by simp
next
  case (2 x)
  then show ?case by (simp add: scan_quoted_in_array)
next
  case (3 x y ys)
  from "3.prems" have x: "list_all plainChar x" and r: "list_all (list_all plainChar) (y # ys)"
    by simp_all
  have "scan (BeginValue, ArrValue els # st) (renderStrings (x # y # ys))
      = scan (EndValue, ArrValue (els @ [JString x]) # st) ('','' @ renderStrings (y # ys))"
    by (simp add: scan_append scan_quoted_in_array(1) [OF x])
  also have "\<dots> = scan (BeginValue, ArrValue (els @ [JString x]) # st) (renderStrings (y # ys))"
    by (simp add: isSpace_def)
  also have "\<dots> = Some (EndValue, ArrValue ((els @ [JString x]) @ map JString (y # ys)) # st)"
    using "3.IH" [OF _ r] by simp
  finally show ?case by simp
qed

lemma scan_renderStrings_first:
  assumes "xs \<noteq> []" and "list_all (list_all plainChar) xs"
  shows "scan (BeginValueOrEmpty, [ArrValue []]) (renderStrings xs)
           = Some (EndValue, [ArrValue (map JString xs)])"
proof (cases xs)
  case Nil
  with assms show ?thesis by simp
next
  case (Cons x rest)
  with assms have x: "list_all plainChar x" by simp
  show ?thesis
  proof (cases rest)
    case Nil
    with Cons x show ?thesis by (simp add: scan_quoted_in_array)
  next
    case (Cons y ys)
    with \<open>xs = x # rest\<close> assms have r: "list_all (list_all plainChar) (y # ys)" by simp
    have "scan (BeginValueOrEmpty, [ArrValue []]) (renderStrings (x # y # ys))
        = scan (EndValue, [ArrValue [JString x]]) ('','' @ renderStrings (y # ys))"
      by (simp add: scan_append scan_quoted_in_array(2) [OF x])
    also have "\<dots> = scan (BeginValue, [ArrValue [JString x]]) (renderStrings (y # ys))"
      by (simp add: isSpace_def)
    also have "\<dots> = Some (EndValue, [ArrValue ([JString x] @ map JString (y # ys))])"
      by (rule scan_renderStrings [OF _ r]) simp
    finally show ?thesis using Cons \<open>xs = x # rest\<close> by simp
  qed
qed

lemma parse_json_renderStringArray:
  assumes "list_all (list_all plainChar) xs"
  shows "parse_json (renderStringArray xs) = Some (JArray (map JString xs))"
proof -
  have open_: "stateBeginValue CHR ''['' [] = Some (BeginValueOrEmpty, [ArrValue []])"
    by (simp add: stateBeginValue_def isSpace_def pushParseState_def maxNestingDepth_def)
  have close_: "scan (EndValue, [ArrValue (map JString xs)]) '']''
      = Some (EndTop (JArray (map JString xs)), [])"
    by (simp add: isSpace_def)
  have "scan (BeginValueOrEmpty, [ArrValue []]) (renderStrings xs @ '']'')
      = Some (EndTop (JArray (map JString xs)), [])"
  proof (cases "xs = []")
    case True
    then show ?thesis by (simp add: isSpace_def)
  next
    case False
    then show ?thesis
      by (simp add: scan_append scan_renderStrings_first [OF False assms] close_ del: scan.simps)
  qed
  then have "scan (BeginValue, []) (renderStringArray xs) = Some (EndTop (JArray (map JString xs)), [])"
    by (simp add: renderStringArray_def open_)
  then show ?thesis by (simp add: parse_json_def isSpace_def)
qed

lemma decode_string_elems_strings:
  "decode_string_elems unq (map JString lits) = Inr (map unq lits)"
  by (induction lits) simp_all

text \<open>
  C4: when the \<open>baseFeeHistory\<close> endpoint answers with a 2xx status (200 in particular) and a
  body that is a bare JSON array of strings, \<open>GetBaseFeeHistory\<close> returns the sequence of the
  unquoted elements: as long as the array, element \<open>i\<close> from element \<open>i\<close>. In particular the
  usual text of an array of strings that need no escaping gives back those strings in order.
  No wrapping object is needed; a body that is a JSON object is in fact a decode error.
\<close>
theorem bare_array_decodes_in_order:
  assumes "Body resp = Inr body" and "200 \<le> StatusCode resp" and "StatusCode resp < 300"
    and "received e h c n ''baseFeeHistory'' resp"
  shows "(parse_json body = Some (JArray (map JString lits))
            \<longrightarrow> fst (GetBaseFeeHistory e h c n) = Ok (map (unquote e) lits) \<and>
                length (map (unquote e) lits) = length lits \<and>
                (\<forall>i < length lits. map (unquote e) lits ! i = unquote e (lits ! i))) \<and>
         (list_all (list_all plainChar) xs \<and> body = renderStringArray xs
            \<longrightarrow> fst (GetBaseFeeHistory e h c n) = Ok (map (unquote e) xs)) \<and>
         (parse_json body = Some (JObject members)
            \<longrightarrow> fst (GetBaseFeeHistory e h c n) = Err (DecodeError UnmarshalTypeError))"
proof -
  have r: "fst (GetBaseFeeHistory e h c n) =
      (case Unmarshal (BaseFeeHistory_target e) body of
         Inl err \<Rightarrow> Err (DecodeError err) | Inr v \<Rightarrow> Ok v)"
    using assms by (simp add: GetBaseFeeHistory_def Let_def endpoint_result)
  have a: "fst (GetBaseFeeHistory e h c n) = Ok (map (unquote e) ys)"
    if "parse_json body = Some (JArray (map JString ys))" for ys
    using that
    by (simp add: r Unmarshal_def BaseFeeHistory_target_def decode_string_elems_strings)
  have o: "fst (GetBaseFeeHistory e h c n) = Err (DecodeError UnmarshalTypeError)"
    if "parse_json body = Some (JObject members)"
    using that by (simp add: r Unmarshal_def BaseFeeHistory_target_def)
  show ?thesis
    using a [of lits] a [of xs] o parse_json_renderStringArray [of xs] by auto
qed

lemma parse_json_three_fees:
  "parse_json ''[\"24.0\",\"25.1\",\"23.9\"]''
     = Some (JArray (map JString [''24.0'', ''25.1'', ''23.9'']))"
  by (simp add: parse_json_def stateBeginValue_def isSpace_def isDigit19_def pushParseState_def
        maxNestingDepth_def)

lemma parse_json_wrapped_fees:
  "parse_json ''{\"data\":[\"24.0\"]}'' = Some (JObject [(''data'', JArray [JString ''24.0''])])"
  by (simp add: parse_json_def stateBeginValue_def stateBeginString_def isSpace_def isDigit19_def
        pushParseState_def maxNestingDepth_def)

theorem bare_array_decodes_in_order_witness:
  "fst (GetBaseFeeHistory (mock_env 200 ''[\"24.0\",\"25.1\",\"23.9\"]'') test_heap
          (test_client ''test-api-key'' ''test-api-secret'') 1) = Ok [''24.0'', ''25.1'', ''23.9''] \<and>
   renderStringArray [''24.0'', ''25.1'', ''23.9''] = ''[\"24.0\",\"25.1\",\"23.9\"]'' \<and>
   list_all (list_all plainChar) [''24.0'', ''25.1'', ''23.9''] \<and>
   fst (GetBaseFeeHistory (mock_env 200 ''{\"data\":[\"24.0\"]}'') test_heap
          (test_client ''test-api-key'' ''test-api-secret'') 1) = Err (DecodeError UnmarshalTypeError)"
proof -
  let ?b = "''[\"24.0\",\"25.1\",\"23.9\"]''"
  let ?w = "''{\"data\":[\"24.0\"]}''"
  have s: "200 \<le> StatusCode (mock_response 200 ?b)" "StatusCode (mock_response 200 ?b) < 300"
    and sw: "200 \<le> StatusCode (mock_response 200 ?w)" "StatusCode (mock_response 200 ?w) < 300"
    by (simp_all add: mock_response_simps)
  have u: "unquote (mock_env 200 ?b) = (\<lambda>lit. lit)" by (simp add: mock_env_def)
  have rn: "?b = renderStringArray [''24.0'', ''25.1'', ''23.9'']"
    by (simp add: renderStringArray_def quoted_def)
  have pl: "list_all (list_all plainChar) [''24.0'', ''25.1'', ''23.9'']"
    by (simp add: plainChar_def)
  note t = bare_array_decodes_in_order [OF mock_response_simps(1) s mock_received,
             where lits = "[''24.0'', ''25.1'', ''23.9'']" and xs = "[''24.0'', ''25.1'', ''23.9'']"]
  have "fst (GetBaseFeeHistory (mock_env 200 ?b) test_heap
          (test_client ''test-api-key'' ''test-api-secret'') 1)
        = Ok (map (unquote (mock_env 200 ?b)) [''24.0'', ''25.1'', ''23.9''])"
    using t parse_json_three_fees by blast
  then have 1: "fst (GetBaseFeeHistory (mock_env 200 ?b) test_heap
          (test_client ''test-api-key'' ''test-api-secret'') 1) = Ok [''24.0'', ''25.1'', ''23.9'']"
    unfolding u by simp
  have "fst (GetBaseFeeHistory (mock_env 200 ?b) test_heap
          (test_client ''test-api-key'' ''test-api-secret'') 1)
        = Ok (map (unquote (mock_env 200 ?b)) [''24.0'', ''25.1'', ''23.9''])"
    using t pl rn by blast
  have 2: "fst (GetBaseFeeHistory (mock_env 200 ?w) test_heap
          (test_client ''test-api-key'' ''test-api-secret'') 1) = Err (DecodeError UnmarshalTypeError)"
    using bare_array_decodes_in_order [OF mock_response_simps(1) sw mock_received]
          parse_json_wrapped_fees
    by blast
  from 1 2 rn pl show ?thesis by simp
qed

lemma fst_doRequest_debug:
  "fst (doRequest e h (c\<lparr>debug := d\<rparr>) m p b) = fst (doRequest e h c m p b)"
  by (simp add: doRequest_def Let_def split: option.splits sum.splits)

lemma fst_doJSONRequest_debug:
  "fst (doJSONRequest e h (c\<lparr>debug := d\<rparr>) m p b tgt) = fst (doJSONRequest e h c m p b tgt)"
proof -
  let ?rd = "case b of Some (Inr bodyBytes) \<Rightarrow> Some bodyBytes | _ \<Rightarrow> None"
  obtain r lg where 1: "doRequest e h c m p ?rd = (r, lg)"
    by (cases "doRequest e h c m p ?rd")
  obtain r' lg' where 2: "doRequest e h (c\<lparr>debug := d\<rparr>) m p ?rd = (r', lg')"
    by (cases "doRequest e h (c\<lparr>debug := d\<rparr>) m p ?rd")
  have "r' = r" using fst_doRequest_debug [of e h d c m p ?rd] 1 2 by simp
  then show ?thesis
    using 1 2
    by (simp add: doJSONRequest_def Let_def split: option.splits sum.splits outcome.splits)
qed

lemma snd_doRequest_quiet: "\<not> debug c \<Longrightarrow> snd (doRequest e h c m p b) = []"
  by (simp add: doRequest_def Let_def split: option.splits sum.splits)

lemma snd_doJSONRequest_quiet:
  assumes "\<not> debug c"
  shows "snd (doJSONRequest e h c m p b tgt) = []"
proof -
  let ?rd = "case b of Some (Inr bodyBytes) \<Rightarrow> Some bodyBytes | _ \<Rightarrow> None"
  obtain r lg where 1: "doRequest e h c m p ?rd = (r, lg)"
    by (cases "doRequest e h c m p ?rd")
  have "snd (doRequest e h c m p ?rd) = []" using assms by (rule snd_doRequest_quiet)
  then have "lg = []" using 1 by simp
  then show ?thesis
    using 1 assms
    by (simp add: doJSONRequest_def Let_def split: option.splits sum.splits outcome.splits)
qed

lemma snd_returned: "snd (returned z r) = snd r"
  by (cases r) (simp add: returned_def split: outcome.splits option.splits)

text \<open>
  C9: for every client, chain identifier and world, each endpoint method returns the same
  result or error with diagnostics on as with diagnostics off; with diagnostics off the log
  stays empty.
\<close>
theorem debug_changes_only_the_log:
  "fst (GetSuggestedGasFees e h (c\<lparr>debug := True\<rparr>) n)
     = fst (GetSuggestedGasFees e h (c\<lparr>debug := False\<rparr>) n) \<and>
   fst (GetBaseFeeHistory e h (c\<lparr>debug := True\<rparr>) n)
     = fst (GetBaseFeeHistory e h (c\<lparr>debug := False\<rparr>) n) \<and>
   fst (GetBaseFeePercentile e h (c\<lparr>debug := True\<rparr>) n)
     = fst (GetBaseFeePercentile e h (c\<lparr>debug := False\<rparr>) n) \<and>
   fst (GetBusyThreshold e h (c\<lparr>debug := True\<rparr>) n)
     = fst (GetBusyThreshold e h (c\<lparr>debug := False\<rparr>) n) \<and>
   snd (GetSuggestedGasFees e h (c\<lparr>debug := False\<rparr>) n) = [] \<and>
   snd (GetBaseFeeHistory e h (c\<lparr>debug := False\<rparr>) n) = [] \<and>
   snd (GetBaseFeePercentile e h (c\<lparr>debug := False\<rparr>) n) = [] \<and>
   snd (GetBusyThreshold e h (c\<lparr>debug := False\<rparr>) n) = []"
  by (simp add: Get_defs Let_def fst_returned snd_returned fst_doJSONRequest_debug
        snd_doJSONRequest_quiet)

lemma mock_three_fees:
  "fst (GetBaseFeeHistory (mock_env 200 ''[\"24.0\",\"25.1\",\"23.9\"]'') test_heap (test_client k s) n)
     = Ok [''24.0'', ''25.1'', ''23.9'']"
proof -
  let ?b = "''[\"24.0\",\"25.1\",\"23.9\"]''"
  have u: "unquote (mock_env 200 ?b) = (\<lambda>lit. lit)" by (simp add: mock_env_def)
  have "Unmarshal (BaseFeeHistory_target (mock_env 200 ?b)) ?b
      = Inr (map (unquote (mock_env 200 ?b)) [''24.0'', ''25.1'', ''23.9''])"
    unfolding Unmarshal_def parse_json_three_fees
    by (simp add: BaseFeeHistory_target_def)
  then have d: "Unmarshal (BaseFeeHistory_target (mock_env 200 ?b)) ?b = Inr [''24.0'', ''25.1'', ''23.9'']"
    unfolding u by simp
  show ?thesis
    unfolding GetBaseFeeHistory_def Let_def
      endpoint_result [OF mock_received mock_response_simps(1)] mock_response_simps(2) d
    by simp
qed

theorem debug_changes_only_the_log_witness:
  "fst (GetBaseFeeHistory (mock_env 200 ''[\"24.0\",\"25.1\",\"23.9\"]'') test_heap
          ((test_client ''test-api-key'' ''test-api-secret'')\<lparr>debug := True\<rparr>) 1)
     = Ok [''24.0'', ''25.1'', ''23.9'']"
proof -
  let ?b = "''[\"24.0\",\"25.1\",\"23.9\"]''"
  let ?c = "test_client ''test-api-key'' ''test-api-secret''"
  have off: "?c\<lparr>debug := False\<rparr> = ?c" by (simp add: test_client_simps)
  have "fst (GetBaseFeeHistory (mock_env 200 ?b) test_heap (?c\<lparr>debug := True\<rparr>) 1)
      = fst (GetBaseFeeHistory (mock_env 200 ?b) test_heap (?c\<lparr>debug := False\<rparr>) 1)"
    using debug_changes_only_the_log [of "mock_env 200 ?b" test_heap ?c 1] by blast
  then show ?thesis unfolding off mock_three_fees .
qed

lemma apply_options_snoc:
  "apply_options (opts @ [opt]) s =
     (case apply_options opts s of Inl p \<Rightarrow> Inl p | Inr s' \<Rightarrow> apply_option opt s')"
  by (induction opts arbitrary: s) (simp_all split: sum.splits)

lemma last_opt_snoc: "last_opt (xs @ [x]) = Some x"
  by (simp add: last_opt_def)

lemma last_opt_append_Nil: "last_opt (xs @ []) = last_opt xs"
  by simp

lemma lastWithBaseURL_snoc:
  "lastWithBaseURL (opts @ [opt]) = (case opt of WithBaseURL u \<Rightarrow> Some u | _ \<Rightarrow> lastWithBaseURL opts)"
  by (cases opt) (simp_all add: lastWithBaseURL_def last_opt_snoc)

lemma lastWithHTTPClient_snoc:
  "lastWithHTTPClient (opts @ [opt]) =
     (case opt of WithHTTPClient p \<Rightarrow> Some p | _ \<Rightarrow> lastWithHTTPClient opts)"
  by (cases opt) (simp_all add: lastWithHTTPClient_def last_opt_snoc)

lemma lastWithTimeout_snoc:
  "lastWithTimeout (opts @ [opt]) = (case opt of WithTimeout t \<Rightarrow> Some t | _ \<Rightarrow> lastWithTimeout opts)"
  by (cases opt) (simp_all add: lastWithTimeout_def last_opt_snoc)

lemma lastWithDebug_snoc:
  "lastWithDebug (opts @ [opt]) = (case opt of WithDebug d \<Rightarrow> Some d | _ \<Rightarrow> lastWithDebug opts)"
  by (cases opt) (simp_all add: lastWithDebug_def last_opt_snoc)

lemma lastWith_Nil:
  "lastWithBaseURL [] = None" "lastWithHTTPClient [] = None" "lastWithTimeout [] = None"
  "lastWithDebug [] = None"
  by (simp_all add: lastWithBaseURL_def lastWithHTTPClient_def lastWithTimeout_def lastWithDebug_def
        last_opt_def)

lemma afterLastHTTPClient_snoc:
  "afterLastHTTPClient (opts @ [opt]) =
     (if isWithHTTPClient opt then [] else afterLastHTTPClient opts @ [opt])"
  by (simp add: afterLastHTTPClient_def)

lemma afterLastHTTPClient_Nil: "afterLastHTTPClient [] = []"
  by (simp add: afterLastHTTPClient_def)

lemma afterLastHTTPClient_none:
  "lastWithHTTPClient opts = None \<Longrightarrow> afterLastHTTPClient opts = opts"
proof (induction opts rule: rev_induct)
  case Nil
  then show ?case by (simp add: afterLastHTTPClient_Nil)
next
  case (snoc opt opts)
  then show ?case
    by (cases opt) (simp_all add: lastWithHTTPClient_snoc afterLastHTTPClient_snoc)
qed

lemma client_Timeout_written:
  "a < length h \<Longrightarrow> httpClient c = Some a \<Longrightarrow>
   client_Timeout (h[a := (h ! a)\<lparr>Timeout := t\<rparr>]) c = Some t"
  by (simp add: client_Timeout_def deref_def)

text \<open>What a run of options leaves behind, from any starting client and heap.\<close>

lemma apply_options_fields:
  assumes "apply_options opts (c0, h0) = Inr (c, h')"
  shows "apiKey c = apiKey c0 \<and> apiKeySecret c = apiKeySecret c0 \<and>
         baseURL c = (case lastWithBaseURL opts of None \<Rightarrow> baseURL c0 | Some u \<Rightarrow> u) \<and>
         debug c = (case lastWithDebug opts of None \<Rightarrow> debug c0 | Some d \<Rightarrow> d) \<and>
         httpClient c = (case lastWithHTTPClient opts of None \<Rightarrow> httpClient c0 | Some p \<Rightarrow> p) \<and>
         length h' = length h0 \<and>
         (\<forall>t. lastWithTimeout (afterLastHTTPClient opts) = Some t \<longrightarrow> client_Timeout h' c = Some t) \<and>
         (lastWithTimeout opts = None \<longrightarrow> h' = h0)"
  using assms
proof (induction opts arbitrary: c h' rule: rev_induct)
  case Nil
  then show ?case by (simp add: lastWith_Nil afterLastHTTPClient_Nil)
next
  case (snoc opt opts)
  from snoc.prems obtain c1 h1 where
    run: "apply_options opts (c0, h0) = Inr (c1, h1)" and
    last: "apply_option opt (c1, h1) = Inr (c, h')"
    by (auto simp: apply_options_snoc split: sum.splits)
  note IH = snoc.IH [OF run]
  show ?case
  proof (cases opt)
    case (WithBaseURL u)
    with last IH show ?thesis
      by (auto simp: lastWithBaseURL_snoc lastWithDebug_snoc lastWithHTTPClient_snoc
            lastWithTimeout_snoc afterLastHTTPClient_snoc client_Timeout_def)
  next
    case (WithHTTPClient p)
    with last IH show ?thesis
      by (auto simp: lastWithBaseURL_snoc lastWithDebug_snoc lastWithHTTPClient_snoc
            lastWithTimeout_snoc afterLastHTTPClient_snoc lastWith_Nil)
  next
    case (WithTimeout t)
    with last IH show ?thesis
      by (auto simp: lastWithBaseURL_snoc lastWithDebug_snoc lastWithHTTPClient_snoc
            lastWithTimeout_snoc afterLastHTTPClient_snoc client_Timeout_written
            split: option.splits if_splits)
  next
    case (WithDebug d)
    with last IH show ?thesis
      by (auto simp: lastWithBaseURL_snoc lastWithDebug_snoc lastWithHTTPClient_snoc
            lastWithTimeout_snoc afterLastHTTPClient_snoc client_Timeout_def)
  next
    case NilOption
    with last show ?thesis by simp
  qed
qed

text \<open>
  Construction cannot fail when no option is nil and every transport handle passed is a live,
  non-nil pointer.
\<close>

lemma apply_options_returns:
  assumes "\<forall>p. WithHTTPClient p \<in> set opts \<longrightarrow> (\<exists>a. p = Some a \<and> a < length h0)"
    and "\<exists>a. httpClient c0 = Some a \<and> a < length h0"
    and "NilOption \<notin> set opts"
  shows "\<exists>c h'. apply_options opts (c0, h0) = Inr (c, h')"
  using assms
proof (induction opts arbitrary: c0 h0)
  case Nil
  then show ?case by simp
next
  case (Cons opt opts)
  show ?case
  proof (cases opt)
    case (WithBaseURL u)
    then show ?thesis using Cons.IH [of h0 "c0\<lparr>baseURL := u\<rparr>"] Cons.prems by simp
  next
    case (WithHTTPClient p)
    then show ?thesis using Cons.IH [of h0 "c0\<lparr>httpClient := p\<rparr>"] Cons.prems by auto
  next
    case (WithTimeout t)
    from Cons.prems(2) obtain a where a: "httpClient c0 = Some a" "a < length h0" by blast
    then show ?thesis
      using WithTimeout Cons.IH [of "h0[a := (h0 ! a)\<lparr>Timeout := t\<rparr>]" c0] Cons.prems
      by simp
  next
    case (WithDebug d)
    then show ?thesis using Cons.IH [of h0 "c0\<lparr>debug := d\<rparr>"] Cons.prems by simp
  next
    case NilOption
    then show ?thesis using Cons.prems by simp
  qed
qed

lemma apply_options_append:
  "apply_options (opts @ rest) s =
     (case apply_options opts s of Inl p \<Rightarrow> Inl p | Inr s' \<Rightarrow> apply_options rest s')"
  by (induction opts arbitrary: s) (simp_all split: sum.splits)

lemma NewClientWithOptions_unfold:
  "NewClientWithOptions k s opts h =
     apply_options opts
       (\<lparr>apiKey = k, apiKeySecret = s, baseURL = BaseURL, httpClient = Some (length h), debug = False\<rparr>,
        h @ [\<lparr>Transport = 0, Timeout = DefaultTimeout\<rparr>])"
  by (simp add: NewClientWithOptions_def alloc_def)

lemma NewClientWithAPIKeyAndOptions_eq:
  "NewClientWithAPIKeyAndOptions k opts h = NewClientWithOptions k [] opts h"
  by (simp add: NewClientWithAPIKeyAndOptions_def NewClientWithOptions_def)

lemma lastWriteTo_Nil: "lastWriteTo a [] = None"
  by (simp add: lastWriteTo_def last_opt_def)

lemma lastWriteTo_Cons:
  "lastWriteTo a ((b, t) # ws) =
     (case lastWriteTo a ws of None \<Rightarrow> (if b = a then Some t else None) | Some t' \<Rightarrow> Some t')"
  by (simp add: lastWriteTo_def last_opt_def)

text \<open>
  The timeout a run of options leaves in a handle: the last value written to it, or the one
  it had.
\<close>

lemma apply_options_timeouts:
  assumes "apply_options opts (c0, h0) = Inr (c, h')" and "a < length h0"
  shows "Timeout (h' ! a) =
     (case lastWriteTo a (timeoutWrites (httpClient c0) opts) of
        None \<Rightarrow> Timeout (h0 ! a) | Some t \<Rightarrow> t)"
  using assms
proof (induction opts arbitrary: c0 h0)
  case Nil
  then show ?case by (simp add: lastWriteTo_Nil)
next
  case (Cons opt opts)
  show ?case
  proof (cases opt)
    case (WithBaseURL u)
    then show ?thesis using Cons.IH [of "c0\<lparr>baseURL := u\<rparr>" h0] Cons.prems by simp
  next
    case (WithHTTPClient p)
    then show ?thesis using Cons.IH [of "c0\<lparr>httpClient := p\<rparr>" h0] Cons.prems by simp
  next
    case (WithTimeout t)
    from Cons.prems(1) WithTimeout obtain b where b: "httpClient c0 = Some b" "b < length h0"
      and run: "apply_options opts (c0, h0[b := (h0 ! b)\<lparr>Timeout := t\<rparr>]) = Inr (c, h')"
      by (auto split: option.splits if_splits)
    have "Timeout (h' ! a) =
        (case lastWriteTo a (timeoutWrites (httpClient c0) opts) of
           None \<Rightarrow> Timeout (h0[b := (h0 ! b)\<lparr>Timeout := t\<rparr>] ! a) | Some t' \<Rightarrow> t')"
      using Cons.IH [OF run] Cons.prems(2) by simp
    then show ?thesis
      using WithTimeout b Cons.prems(2)
      by (simp add: lastWriteTo_Cons nth_list_update split: option.splits)
  next
    case (WithDebug d)
    then show ?thesis using Cons.IH [of "c0\<lparr>debug := d\<rparr>" h0] Cons.prems by simp
  next
    case NilOption
    then show ?thesis using Cons.prems by simp
  qed
qed

lemma timeoutWrites_no_timeout:
  "\<forall>opt \<in> set opts. \<not> isWithTimeout opt \<Longrightarrow> timeoutWrites cur opts = []"
  by (induction cur opts rule: timeoutWrites.induct) simp_all

lemma lastWriteTo_fresh_handle:
  assumes "cur \<noteq> Some a" and "WithHTTPClient (Some a) \<notin> set pre"
  shows "lastWriteTo a (timeoutWrites cur (pre @ WithHTTPClient (Some a) # post))
           = lastWriteTo a (timeoutWrites (Some a) post)"
  using assms
proof (induction cur pre rule: timeoutWrites.induct)
  case (3 b t opts)
  then show ?case by (simp add: lastWriteTo_Cons split: option.splits)
qed auto

lemma lastWithHTTPClient_then_none:
  "\<forall>opt \<in> set post. \<not> isWithHTTPClient opt \<Longrightarrow>
   lastWithHTTPClient (pre @ WithHTTPClient p # post) = Some p"
proof (induction post rule: rev_induct)
  case Nil
  then show ?case by (simp add: lastWithHTTPClient_snoc)
next
  case (snoc opt post)
  then have "lastWithHTTPClient ((pre @ WithHTTPClient p # post) @ [opt]) = Some p"
    unfolding lastWithHTTPClient_snoc by (cases opt) simp_all
  then show ?case by simp
qed

lemma nil_option_panics:
  "NilOption \<in> set opts \<Longrightarrow> \<exists>pn. apply_options opts s = Inl pn"
proof (induction opts arbitrary: s)
  case Nil
  then show ?case by simp
next
  case (Cons opt opts)
  show ?case
  proof (cases "apply_option opt s")
    case (Inl pn)
    then show ?thesis by simp
  next
    case (Inr s')
    then have "opt \<noteq> NilOption" by (cases s) auto
    with Cons.prems have "NilOption \<in> set opts" by simp
    from Cons.IH [OF this, of s'] Inr show ?thesis by simp
  qed
qed

text \<open>
  C8, as the code has it. The options are applied in call order, each to the client the ones
  before it left. When construction returns a client: the credentials are the constructor's
  arguments; the base address, the diagnostics flag and the transport handle are the value of
  the last option for that field, or the default (\<open>BaseURL\<close>, off, a fresh handle). The timeout
  is not a field of the client: \<open>WithTimeout\<close> writes it into whichever transport handle the
  client holds at that moment, and the handle is shared with the caller. So the client's
  timeout, when it ends with a live handle, is the last value written to that handle, or the
  handle's own timeout (30 seconds for the fresh one) when none was written. In particular: the last \<open>WithTimeout\<close>
  among the options that follow the last \<open>WithHTTPClient\<close> wins; with no \<open>WithHTTPClient\<close> at
  all it is the last \<open>WithTimeout\<close> value or 30 seconds; a handle installed for the first time
  by the last \<open>WithHTTPClient\<close>, with no \<open>WithTimeout\<close> after it, keeps its own timeout
  whatever \<open>WithTimeout\<close> came before. Hence a timeout followed by a handle gives the handle's
  timeout and the same two options in the other order give the option's timeout, while a
  handle installed again keeps the timeout written to it in between. Construction returns
  whenever no option is nil and every transport handle passed is a live, non-nil pointer; a
  nil option makes it panic. The key-only constructor is the dual one with an empty secret.
\<close>

theorem options_applied_in_order:
  "(NewClientWithOptions k s opts h = Inr (c, h') \<longrightarrow>
      apiKey c = k \<and> apiKeySecret c = s \<and>
      baseURL c = (case lastWithBaseURL opts of None \<Rightarrow> BaseURL | Some u \<Rightarrow> u) \<and>
      debug c = (case lastWithDebug opts of None \<Rightarrow> False | Some d \<Rightarrow> d) \<and>
      httpClient c = (case lastWithHTTPClient opts of None \<Rightarrow> Some (length h) | Some p \<Rightarrow> p) \<and>
      (httpClient c = Some a \<and> a \<le> length h \<longrightarrow>
         client_Timeout h' c =
           Some (case lastWriteTo a (timeoutWrites (Some (length h)) opts) of
                   None \<Rightarrow> Timeout ((h @ [\<lparr>Transport = 0, Timeout = DefaultTimeout\<rparr>]) ! a)
                 | Some w \<Rightarrow> w)) \<and>
      (lastWithTimeout (afterLastHTTPClient opts) = Some t \<longrightarrow> client_Timeout h' c = Some t) \<and>
      (lastWithHTTPClient opts = None \<longrightarrow> client_Timeout h' c = Some (specTimeout opts)) \<and>
      (opts = pre @ WithHTTPClient (Some b) # post \<and> b < length h \<and>
       WithHTTPClient (Some b) \<notin> set pre \<and>
       (\<forall>opt \<in> set post. \<not> isWithHTTPClient opt \<and> \<not> isWithTimeout opt)
         \<longrightarrow> client_Timeout h' c = Some (Timeout (h ! b)))) \<and>
   (b < length h \<longrightarrow>
      resultTimeout (NewClientWithOptions k s [WithTimeout t, WithHTTPClient (Some b)] h)
        = Some (Timeout (h ! b)) \<and>
      resultTimeout (NewClientWithOptions k s [WithHTTPClient (Some b), WithTimeout t] h)
        = Some t \<and>
      resultTimeout
        (NewClientWithOptions k s [WithHTTPClient (Some b), WithTimeout t, WithHTTPClient (Some b)] h)
        = Some t) \<and>
   (NilOption \<notin> set opts \<and>
    (\<forall>p. WithHTTPClient p \<in> set opts \<longrightarrow> (\<exists>a. p = Some a \<and> a < length h))
      \<longrightarrow> (\<exists>c h'. NewClientWithOptions k s opts h = Inr (c, h'))) \<and>
   (NilOption \<in> set opts \<longrightarrow> (\<exists>pn. NewClientWithOptions k s opts h = Inl pn)) \<and>
   NewClientWithOptions k s (opts @ rest) h =
     (case NewClientWithOptions k s opts h of Inl p \<Rightarrow> Inl p | Inr st \<Rightarrow> apply_options rest st) \<and>
   NewClientWithAPIKeyAndOptions k opts h = NewClientWithOptions k [] opts h"
proof (intro conjI impI)
  let ?c0 = "\<lparr>apiKey = k, apiKeySecret = s, baseURL = BaseURL, httpClient = Some (length h),
               debug = False\<rparr>"
  let ?h0 = "h @ [\<lparr>Transport = 0, Timeout = DefaultTimeout\<rparr>]"
  {
    assume "NewClientWithOptions k s opts h = Inr (c, h')"
    then have run: "apply_options opts (?c0, ?h0) = Inr (c, h')"
      by (simp add: NewClientWithOptions_unfold)
    note f = apply_options_fields [OF run]
    from f have len: "length h' = Suc (length h)" by simp
    from f show "apiKey c = k" "apiKeySecret c = s" by simp_all
    from f show "baseURL c = (case lastWithBaseURL opts of None \<Rightarrow> BaseURL | Some u \<Rightarrow> u)"
      by (simp split: option.splits)
    from f show "debug c = (case lastWithDebug opts of None \<Rightarrow> False | Some d \<Rightarrow> d)"
      by (simp split: option.splits)
    from f show hc: "httpClient c = (case lastWithHTTPClient opts of None \<Rightarrow> Some (length h) | Some p \<Rightarrow> p)"
      by (simp split: option.splits)
    have written: "client_Timeout h' c =
        Some (case lastWriteTo x (timeoutWrites (Some (length h)) opts) of
                None \<Rightarrow> Timeout (?h0 ! x) | Some w \<Rightarrow> w)"
      if "httpClient c = Some x" and "x \<le> length h" for x
    proof -
      from that have x: "x < length ?h0" by simp
      have "client_Timeout h' c = Some (Timeout (h' ! x))"
        using that len by (simp add: client_Timeout_def deref_def)
      then show ?thesis using apply_options_timeouts [OF run x] by simp
    qed
    {
      assume "httpClient c = Some a \<and> a \<le> length h"
      then show "client_Timeout h' c =
           Some (case lastWriteTo a (timeoutWrites (Some (length h)) opts) of
                   None \<Rightarrow> Timeout (?h0 ! a) | Some w \<Rightarrow> w)"
        using written by blast
    }
    {
      assume "lastWithTimeout (afterLastHTTPClient opts) = Some t"
      with f show "client_Timeout h' c = Some t" by blast
    }
    {
      assume none: "lastWithHTTPClient opts = None"
      show "client_Timeout h' c = Some (specTimeout opts)"
      proof (cases "lastWithTimeout opts")
        case None
        with f have "h' = ?h0" by blast
        moreover from f none have "httpClient c = Some (length h)" by simp
        ultimately show ?thesis
          using None by (simp add: client_Timeout_def deref_def specTimeout_def)
      next
        case (Some t')
        then have "lastWithTimeout (afterLastHTTPClient opts) = Some t'"
          by (simp add: afterLastHTTPClient_none [OF none])
        with f have "client_Timeout h' c = Some t'" by blast
        then show ?thesis using Some by (simp add: specTimeout_def)
      qed
    }
    {
      assume fresh: "opts = pre @ WithHTTPClient (Some b) # post \<and> b < length h \<and>
         WithHTTPClient (Some b) \<notin> set pre \<and>
         (\<forall>opt \<in> set post. \<not> isWithHTTPClient opt \<and> \<not> isWithTimeout opt)"
      then have "lastWithHTTPClient opts = Some (Some b)"
        using lastWithHTTPClient_then_none [of post pre "Some b"] by simp
      with hc have cb: "httpClient c = Some b" by simp
      from fresh have "Some (length h) \<noteq> Some b" by simp
      then have "lastWriteTo b (timeoutWrites (Some (length h)) (pre @ WithHTTPClient (Some b) # post))
          = lastWriteTo b (timeoutWrites (Some b) post)"
        using fresh by (intro lastWriteTo_fresh_handle) simp_all
      also have "\<dots> = None"
        using fresh by (simp add: timeoutWrites_no_timeout lastWriteTo_Nil)
      finally have "lastWriteTo b (timeoutWrites (Some (length h)) opts) = None"
        using fresh by simp
      then show "client_Timeout h' c = Some (Timeout (h ! b))"
        using written [OF cb] fresh by (simp add: nth_append)
    }
  }
  {
    assume b: "b < length h"
    then show "resultTimeout (NewClientWithOptions k s [WithTimeout t, WithHTTPClient (Some b)] h)
        = Some (Timeout (h ! b))"
      by (simp add: NewClientWithOptions_unfold resultTimeout_def client_Timeout_def deref_def
            nth_append)
    from b show "resultTimeout (NewClientWithOptions k s [WithHTTPClient (Some b), WithTimeout t] h)
        = Some t"
      by (simp add: NewClientWithOptions_unfold resultTimeout_def client_Timeout_def deref_def)
    from b show "resultTimeout
        (NewClientWithOptions k s [WithHTTPClient (Some b), WithTimeout t, WithHTTPClient (Some b)] h)
        = Some t"
      by (simp add: NewClientWithOptions_unfold resultTimeout_def client_Timeout_def deref_def)
  }
  {
    assume ok: "NilOption \<notin> set opts \<and>
      (\<forall>p. WithHTTPClient p \<in> set opts \<longrightarrow> (\<exists>a. p = Some a \<and> a < length h))"
    then have "\<forall>p. WithHTTPClient p \<in> set opts \<longrightarrow> (\<exists>a. p = Some a \<and> a < length ?h0)"
      by fastforce
    moreover have "\<exists>a. httpClient ?c0 = Some a \<and> a < length ?h0" by simp
    moreover from ok have "NilOption \<notin> set opts" by simp
    ultimately have "\<exists>c h'. apply_options opts (?c0, ?h0) = Inr (c, h')"
      by (rule apply_options_returns)
    then show "\<exists>c h'. NewClientWithOptions k s opts h = Inr (c, h')"
      by (simp add: NewClientWithOptions_unfold)
  }
  {
    assume "NilOption \<in> set opts"
    then show "\<exists>pn. NewClientWithOptions k s opts h = Inl pn"
      by (simp add: NewClientWithOptions_unfold nil_option_panics)
  }
  show "NewClientWithOptions k s (opts @ rest) h =
     (case NewClientWithOptions k s opts h of Inl p \<Rightarrow> Inl p | Inr st \<Rightarrow> apply_options rest st)"
    by (simp add: NewClientWithOptions_unfold apply_options_append)
  show "NewClientWithAPIKeyAndOptions k opts h = NewClientWithOptions k [] opts h"
    by (rule NewClientWithAPIKeyAndOptions_eq)
qed

theorem options_applied_in_order_witness:
  "NewClientWithOptions ''your-api-key'' ''your-api-secret''
     [WithBaseURL ''https://custom-gas-api.url'', WithDebug True, WithHTTPClient (Some 0),
      WithTimeout 60000000000]
     [\<lparr>Transport = 0, Timeout = 30000000000\<rparr>]
   = Inr (\<lparr>apiKey = ''your-api-key'', apiKeySecret = ''your-api-secret'',
            baseURL = ''https://custom-gas-api.url'', httpClient = Some 0, debug = True\<rparr>,
          [\<lparr>Transport = 0, Timeout = 60000000000\<rparr>, \<lparr>Transport = 0, Timeout = 30000000000\<rparr>]) \<and>
   client_Timeout [\<lparr>Transport = 0, Timeout = 60000000000\<rparr>, \<lparr>Transport = 0, Timeout = 30000000000\<rparr>]
     \<lparr>apiKey = ''your-api-key'', apiKeySecret = ''your-api-secret'',
      baseURL = ''https://custom-gas-api.url'', httpClient = Some 0, debug = True\<rparr>
   = Some 60000000000 \<and>
   NewClientWithOptions ''k'' ''s'' [WithTimeout 45000000000] []
   = Inr (\<lparr>apiKey = ''k'', apiKeySecret = ''s'', baseURL = BaseURL, httpClient = Some 0, debug = False\<rparr>,
          [\<lparr>Transport = 0, Timeout = 45000000000\<rparr>]) \<and>
   client_Timeout [\<lparr>Transport = 0, Timeout = 45000000000\<rparr>]
     \<lparr>apiKey = ''k'', apiKeySecret = ''s'', baseURL = BaseURL, httpClient = Some 0, debug = False\<rparr>
   = Some 45000000000 \<and>
   NewClientWithOptions ''your-api-key'' ''your-api-secret''
     [WithBaseURL ''https://custom-gas-api.url'', WithTimeout 60000000000, WithDebug True,
      WithHTTPClient (Some 0)]
     [\<lparr>Transport = 0, Timeout = 30000000000\<rparr>]
   = Inr (\<lparr>apiKey = ''your-api-key'', apiKeySecret = ''your-api-secret'',
            baseURL = ''https://custom-gas-api.url'', httpClient = Some 0, debug = True\<rparr>,
          [\<lparr>Transport = 0, Timeout = 30000000000\<rparr>, \<lparr>Transport = 0, Timeout = 60000000000\<rparr>]) \<and>
   client_Timeout [\<lparr>Transport = 0, Timeout = 30000000000\<rparr>, \<lparr>Transport = 0, Timeout = 60000000000\<rparr>]
     \<lparr>apiKey = ''your-api-key'', apiKeySecret = ''your-api-secret'',
      baseURL = ''https://custom-gas-api.url'', httpClient = Some 0, debug = True\<rparr>
   = Some 30000000000 \<and>
   resultTimeout (NewClientWithOptions ''k'' ''s'' [WithTimeout 5000000000, WithHTTPClient (Some 0)]
                    [\<lparr>Transport = 0, Timeout = 30000000000\<rparr>]) = Some 30000000000 \<and>
   resultTimeout (NewClientWithOptions ''k'' ''s'' [WithHTTPClient (Some 0), WithTimeout 5000000000]
                    [\<lparr>Transport = 0, Timeout = 30000000000\<rparr>]) = Some 5000000000 \<and>
   resultTimeout (NewClientWithOptions ''k'' ''s''
                    [WithHTTPClient (Some 0), WithTimeout 5000000000, WithHTTPClient (Some 0)]
                    [\<lparr>Transport = 0, Timeout = 30000000000\<rparr>]) = Some 5000000000 \<and>
   (\<exists>pn. NewClientWithOptions ''k'' ''s'' [WithDebug True, NilOption] [] = Inl pn)"
proof -
  let ?u = "''https://custom-gas-api.url''"
  let ?opts = "[WithBaseURL ?u, WithDebug True, WithHTTPClient (Some 0), WithTimeout 60000000000]"
  let ?readme = "[WithBaseURL ?u, WithTimeout 60000000000, WithDebug True, WithHTTPClient (Some 0)]"
  let ?h = "[\<lparr>Transport = 0, Timeout = 30000000000\<rparr>]"
  let ?c = "\<lparr>apiKey = ''your-api-key'', apiKeySecret = ''your-api-secret'',
            baseURL = ?u, httpClient = Some 0, debug = True\<rparr>"
  let ?h' = "[\<lparr>Transport = 0, Timeout = 60000000000\<rparr>, \<lparr>Transport = 0, Timeout = 30000000000\<rparr>]"
  let ?h3 = "[\<lparr>Transport = 0, Timeout = 30000000000\<rparr>, \<lparr>Transport = 0, Timeout = 60000000000\<rparr>]"
  let ?c2 = "\<lparr>apiKey = ''k'', apiKeySecret = ''s'', baseURL = BaseURL, httpClient = Some 0, debug = False\<rparr>"
  have 1: "NewClientWithOptions ''your-api-key'' ''your-api-secret'' ?opts ?h = Inr (?c, ?h')"
    by (simp add: NewClientWithOptions_unfold DefaultTimeout_def)
  have 2: "lastWithTimeout (afterLastHTTPClient ?opts) = Some 60000000000"
    by (simp add: afterLastHTTPClient_def lastWithTimeout_def last_opt_def)
  have 3: "NewClientWithOptions ''k'' ''s'' [WithTimeout 45000000000] []
      = Inr (?c2, [\<lparr>Transport = 0, Timeout = 45000000000\<rparr>])"
    by (simp add: NewClientWithOptions_unfold)
  have 4: "lastWithHTTPClient [WithTimeout 45000000000] = None"
    by (simp add: lastWithHTTPClient_def last_opt_def)
  have 5: "specTimeout [WithTimeout 45000000000] = 45000000000"
    by (simp add: specTimeout_def lastWithTimeout_def last_opt_def)
  have 6: "NewClientWithOptions ''your-api-key'' ''your-api-secret'' ?readme ?h = Inr (?c, ?h3)"
    by (simp add: NewClientWithOptions_unfold DefaultTimeout_def)
  have 7: "?readme = [WithBaseURL ?u, WithTimeout 60000000000, WithDebug True]
                       @ WithHTTPClient (Some 0) # [] \<and>
      (0 :: nat) < length ?h \<and>
      WithHTTPClient (Some 0) \<notin> set [WithBaseURL ?u, WithTimeout 60000000000, WithDebug True] \<and>
      (\<forall>opt \<in> set []. \<not> isWithHTTPClient opt \<and> \<not> isWithTimeout opt)"
    by simp
  have 8: "httpClient ?c = Some 0 \<and> (0 :: nat) \<le> length ?h" by simp
  have 9: "lastWriteTo 0 (timeoutWrites (Some (length ?h)) ?opts) = Some 60000000000"
    by (simp add: lastWriteTo_def last_opt_def)
  have ok: "NilOption \<notin> set ?opts \<and>
      (\<forall>p. WithHTTPClient p \<in> set ?opts \<longrightarrow> (\<exists>a. p = Some a \<and> a < length ?h))"
    by simp
  have nil: "NilOption \<in> set [WithDebug True, NilOption]" by simp
  note t1 = options_applied_in_order
              [where k = "''your-api-key''" and s = "''your-api-secret''" and opts = ?opts
                 and h = ?h and c = ?c and h' = ?h' and t = 60000000000 and a = 0]
  note t3 = options_applied_in_order
              [where k = "''your-api-key''" and s = "''your-api-secret''" and opts = ?readme
                 and h = ?h and c = ?c and h' = ?h3 and b = 0
                 and pre = "[WithBaseURL ?u, WithTimeout 60000000000, WithDebug True]"
                 and post = "[]"]
  have a: "client_Timeout ?h' ?c = Some 60000000000"
    using t1 1 2 by blast
  have "client_Timeout ?h' ?c =
      Some (case lastWriteTo 0 (timeoutWrites (Some (length ?h)) ?opts) of
              None \<Rightarrow> Timeout ((?h @ [\<lparr>Transport = 0, Timeout = DefaultTimeout\<rparr>]) ! 0)
            | Some w \<Rightarrow> w)"
    using t1 1 8 by blast
  then have a': "client_Timeout ?h' ?c = Some 60000000000"
    unfolding 9 by simp
  have "\<exists>c h'. NewClientWithOptions ''your-api-key'' ''your-api-secret'' ?opts ?h = Inr (c, h')"
    using t1 ok by blast
  have b: "client_Timeout [\<lparr>Transport = 0, Timeout = 45000000000\<rparr>] ?c2 = Some 45000000000"
    using options_applied_in_order
            [where k = "''k''" and s = "''s''" and opts = "[WithTimeout 45000000000]" and h = "[]"
               and c = ?c2 and h' = "[\<lparr>Transport = 0, Timeout = 45000000000\<rparr>]"] 3 4 5
    by simp
  have "client_Timeout ?h3 ?c = Some (Timeout (?h ! 0))"
    using t3 6 7 by blast
  then have c: "client_Timeout ?h3 ?c = Some 30000000000" by simp
  have "(0 :: nat) < length ?h" by simp
  then have "resultTimeout (NewClientWithOptions ''k'' ''s'' [WithTimeout 5000000000, WithHTTPClient (Some 0)] ?h)
        = Some (Timeout (?h ! 0)) \<and>
      resultTimeout (NewClientWithOptions ''k'' ''s'' [WithHTTPClient (Some 0), WithTimeout 5000000000] ?h)
        = Some 5000000000 \<and>
      resultTimeout (NewClientWithOptions ''k'' ''s''
          [WithHTTPClient (Some 0), WithTimeout 5000000000, WithHTTPClient (Some 0)] ?h)
        = Some 5000000000"
    using options_applied_in_order
            [where k = "''k''" and s = "''s''" and h = ?h and b = 0 and t = 5000000000]
    by blast
  then have d: "resultTimeout (NewClientWithOptions ''k'' ''s'' [WithTimeout 5000000000, WithHTTPClient (Some 0)] ?h)
        = Some 30000000000"
      "resultTimeout (NewClientWithOptions ''k'' ''s'' [WithHTTPClient (Some 0), WithTimeout 5000000000] ?h)
        = Some 5000000000"
      "resultTimeout (NewClientWithOptions ''k'' ''s''
          [WithHTTPClient (Some 0), WithTimeout 5000000000, WithHTTPClient (Some 0)] ?h)
        = Some 5000000000"
    by simp_all
  have e: "\<exists>pn. NewClientWithOptions ''k'' ''s'' [WithDebug True, NilOption] [] = Inl pn"
    using options_applied_in_order
            [where k = "''k''" and s = "''s''" and opts = "[WithDebug True, NilOption]" and h = "[]"] nil
    by blast
  from 1 a 3 b 6 c d e show ?thesis by blast
qed

text \<open>
  The option list of the package's README: the last timeout option says 60 seconds, the
  transport handle given after it has 30 seconds, and the client ends with 30 seconds, not
  with the value of the last option for the timeout. With the same options, the timeout given
  after the handle, it ends with 60 seconds: the order of two options for distinct fields
  changes the result.
\<close>

theorem timeout_then_transport_counterexample:
  "resultTimeout
     (NewClientWithOptions ''your-api-key'' ''your-api-secret''
        [WithBaseURL ''https://custom-gas-api.url'', WithTimeout 60000000000, WithDebug True,
         WithHTTPClient (Some 0)]
        [\<lparr>Transport = 0, Timeout = 30000000000\<rparr>]) = Some 30000000000 \<and>
   specTimeout
     [WithBaseURL ''https://custom-gas-api.url'', WithTimeout 60000000000, WithDebug True,
      WithHTTPClient (Some 0)] = 60000000000 \<and>
   resultTimeout
     (NewClientWithOptions ''your-api-key'' ''your-api-secret''
        [WithBaseURL ''https://custom-gas-api.url'', WithDebug True, WithHTTPClient (Some 0),
         WithTimeout 60000000000]
        [\<lparr>Transport = 0, Timeout = 30000000000\<rparr>]) = Some 60000000000"
  by (simp add: NewClientWithOptions_unfold resultTimeout_def client_Timeout_def deref_def
        specTimeout_def lastWithTimeout_def last_opt_def)

lemma NewClient_eq: "NewClient k [] h = NewClientWithAPIKey k h"
  by (simp add: NewClient_def NewClientWithAPIKey_def)

text \<open>
  C5: for every API key, the dual-credential constructors called with an empty secret build
  the same client as the key-only constructors (with the same options), so every endpoint
  method behaves the same on both: the path has the shape \<open>/v3/{k}/networks/{n}/{name}\<close>, no
  Authorization header is set, and the result for a given world is the same. Options cannot
  change this, since none of them touches the credentials.
\<close>
theorem empty_secret_is_key_only:
  "NewClient k [] h = NewClientWithAPIKey k h \<and>
   NewClientWithOptions k [] opts h = NewClientWithAPIKeyAndOptions k opts h \<and>
   endpointPath (fst (NewClient k [] h)) n name
     = ''/v3/'' @ k @ ''/networks/'' @ fmt_d (sint n) @ ''/'' @ name \<and>
   header_values (Header (prepareRequest (fst (NewClient k [] h)) ''GET''
       (endpointPath (fst (NewClient k [] h)) n name) None)) ''Authorization'' = None \<and>
   (NewClientWithOptions k [] opts h = Inr (c, h') \<longrightarrow>
      endpointPath c n name = ''/v3/'' @ k @ ''/networks/'' @ fmt_d (sint n) @ ''/'' @ name \<and>
      header_values (Header (prepareRequest c ''GET'' (endpointPath c n name) None)) ''Authorization''
        = None) \<and>
   GetSuggestedGasFees e (snd (NewClient k [] h)) (fst (NewClient k [] h)) n
     = GetSuggestedGasFees e (snd (NewClientWithAPIKey k h)) (fst (NewClientWithAPIKey k h)) n \<and>
   GetBaseFeeHistory e (snd (NewClient k [] h)) (fst (NewClient k [] h)) n
     = GetBaseFeeHistory e (snd (NewClientWithAPIKey k h)) (fst (NewClientWithAPIKey k h)) n \<and>
   GetBaseFeePercentile e (snd (NewClient k [] h)) (fst (NewClient k [] h)) n
     = GetBaseFeePercentile e (snd (NewClientWithAPIKey k h)) (fst (NewClientWithAPIKey k h)) n \<and>
   GetBusyThreshold e (snd (NewClient k [] h)) (fst (NewClient k [] h)) n
     = GetBusyThreshold e (snd (NewClientWithAPIKey k h)) (fst (NewClientWithAPIKey k h)) n"
proof (intro conjI impI)
  show "NewClient k [] h = NewClientWithAPIKey k h" by (rule NewClient_eq)
  show "NewClientWithOptions k [] opts h = NewClientWithAPIKeyAndOptions k opts h"
    by (rule NewClientWithAPIKeyAndOptions_eq [symmetric])
  have s: "apiKey (fst (NewClient k [] h)) = k" "apiKeySecret (fst (NewClient k [] h)) = []"
    by (simp_all add: NewClient_def alloc_def)
  show "endpointPath (fst (NewClient k [] h)) n name
      = ''/v3/'' @ k @ ''/networks/'' @ fmt_d (sint n) @ ''/'' @ name"
    by (simp add: endpointPath_def hasSecret_def s)
  show "header_values (Header (prepareRequest (fst (NewClient k [] h)) ''GET''
       (endpointPath (fst (NewClient k [] h)) n name) None)) ''Authorization'' = None"
    by (simp add: Header_prepareRequest header_values_def hasSecret_def s)
  {
    assume "NewClientWithOptions k [] opts h = Inr (c, h')"
    then have "apply_options opts
       (\<lparr>apiKey = k, apiKeySecret = [], baseURL = BaseURL, httpClient = Some (length h), debug = False\<rparr>,
        h @ [\<lparr>Transport = 0, Timeout = DefaultTimeout\<rparr>]) = Inr (c, h')"
      by (simp add: NewClientWithOptions_unfold)
    from apply_options_fields [OF this] have c: "apiKey c = k" "apiKeySecret c = []"
      by simp_all
    show "endpointPath c n name = ''/v3/'' @ k @ ''/networks/'' @ fmt_d (sint n) @ ''/'' @ name"
      by (simp add: endpointPath_def hasSecret_def c)
    show "header_values (Header (prepareRequest c ''GET'' (endpointPath c n name) None))
        ''Authorization'' = None"
      by (simp add: Header_prepareRequest header_values_def hasSecret_def c)
  }
qed (simp_all only: NewClient_eq)

theorem empty_secret_is_key_only_witness:
  "NewClientWithOptions ''test-api-key'' [] [WithBaseURL ''http://127.0.0.1''] []
     = Inr (\<lparr>apiKey = ''test-api-key'', apiKeySecret = [], baseURL = ''http://127.0.0.1'',
              httpClient = Some 0, debug = False\<rparr>, [\<lparr>Transport = 0, Timeout = DefaultTimeout\<rparr>]) \<and>
   NewClientWithAPIKeyAndOptions ''test-api-key'' [WithBaseURL ''http://127.0.0.1''] []
     = Inr (\<lparr>apiKey = ''test-api-key'', apiKeySecret = [], baseURL = ''http://127.0.0.1'',
              httpClient = Some 0, debug = False\<rparr>, [\<lparr>Transport = 0, Timeout = DefaultTimeout\<rparr>]) \<and>
   endpointPath \<lparr>apiKey = ''test-api-key'', apiKeySecret = [], baseURL = ''http://127.0.0.1'',
                 httpClient = Some 0, debug = False\<rparr> 1 ''suggestedGasFees''
     = ''/v3/test-api-key/networks/1/suggestedGasFees''"
proof -
  let ?c = "\<lparr>apiKey = ''test-api-key'', apiKeySecret = [], baseURL = ''http://127.0.0.1'',
              httpClient = Some 0, debug = False\<rparr>"
  let ?h' = "[\<lparr>Transport = 0, Timeout = DefaultTimeout\<rparr>]"
  have 1: "NewClientWithOptions ''test-api-key'' [] [WithBaseURL ''http://127.0.0.1''] [] = Inr (?c, ?h')"
    by (simp add: NewClientWithOptions_unfold)
  note t = empty_secret_is_key_only
             [of "''test-api-key''" "[]" "[WithBaseURL ''http://127.0.0.1'']" 1 "''suggestedGasFees''" ?c ?h']
  from t 1 have 2: "NewClientWithAPIKeyAndOptions ''test-api-key'' [WithBaseURL ''http://127.0.0.1''] []
      = Inr (?c, ?h')"
    by simp
  from t 1 have "endpointPath ?c 1 ''suggestedGasFees''
      = ''/v3/'' @ ''test-api-key'' @ ''/networks/'' @ fmt_d (sint (1 :: 64 word)) @ ''/'' @ ''suggestedGasFees''"
    by blast
  then have 3: "endpointPath ?c 1 ''suggestedGasFees'' = ''/v3/test-api-key/networks/1/suggestedGasFees''"
    by (simp add: eval_fmt)
  from 1 2 3 show ?thesis by blast
qed

end
